theory Spec2Isabelle
  imports Complex_Main
begin

section \<open>Host document\<close>

text \<open>
  The host scene graph is opaque to the plugin: it is reached through
  \<^verbatim>\<open>figma.getNodeById\<close>, \<^verbatim>\<open>figma.currentPage\<close> and the node objects these return.
  A node is modelled by the fields the plugin reads or writes; the document is the list
  of its nodes, and \<^verbatim>\<open>figma.currentPage\<close> is kept as the id of the focused page.
\<close>

datatype node_type =
  DOCUMENT | PAGE | FRAME | GROUP | COMPONENT | COMPONENT_SET | INSTANCE
  | RECTANGLE | ELLIPSE | POLYGON | STAR | VECTOR | LINE | TEXT

text \<open>A solid paint \<^verbatim>\<open>{type: 'SOLID', color: {r, g, b}}\<close>.\<close>

datatype paint = SOLID real real real

record node =
  node_id :: string
  node_kind :: node_type
  node_name :: string
  node_parent :: "string option"
  node_x :: real
  node_y :: real
  node_width :: real
  node_height :: real
  node_fills :: "paint list"
  node_pointCount :: real

text \<open>
  \<open>next_id\<close> numbers the nodes the host has created; the id of a new node is made from
  it, so that every created node gets an id of its own. \<open>viewport_width\<close> and
  \<open>viewport_height\<close> are \<^verbatim>\<open>figma.viewport.bounds.width\<close> and \<^verbatim>\<open>.height\<close>, and
  \<open>selection_of h i\<close> holds the ids of the nodes selected on the page \<open>i\<close>, so that
  \<^verbatim>\<open>figma.currentPage.selection\<close> is \<open>selection_of h (currentPage h)\<close>.
\<close>

record figma =
  document :: "node list"
  currentPage :: string
  next_id :: nat
  viewport_width :: real
  viewport_height :: real
  selection_of :: "string \<Rightarrow> string list"

definition getNodeById :: "figma \<Rightarrow> string \<Rightarrow> node option" where
  "getNodeById h i = find (\<lambda>n. node_id n = i) (document h)"

definition host_id :: "nat \<Rightarrow> string" where
  "host_id k = ''1:'' @ replicate (Suc k) (CHR ''i'')"

text \<open>
  The host's constructors \<^verbatim>\<open>figma.createFrame()\<close>, \<^verbatim>\<open>createPolygon()\<close> and so on: a new
  node of the given type with the host's defaults and a new id. The plugin holds the node
  as a local object, sets its properties, and the model stores it in the document with
  \<open>store\<close> when the plugin is done with it.
\<close>

definition create_node :: "node_type \<Rightarrow> string \<Rightarrow> real \<Rightarrow> figma \<Rightarrow> node \<times> figma" where
  "create_node kind default_name default_points h =
     (\<lparr>node_id = host_id (next_id h), node_kind = kind, node_name = default_name,
        node_parent = Some (currentPage h), node_x = 0, node_y = 0,
        node_width = 100, node_height = 100, node_fills = [],
        node_pointCount = default_points\<rparr>,
      h\<lparr>next_id := Suc (next_id h)\<rparr>)"

definition store :: "node \<Rightarrow> figma \<Rightarrow> figma" where
  "store n h = h\<lparr>document := document h @ [n]\<rparr>"

section \<open>Session state\<close>

record wireframe =
  name :: string
  wireframeId :: string
  pageIds :: "string list"
  createdAt :: nat

text \<open>
  \<^verbatim>\<open>sessionState\<close>: \<^verbatim>\<open>createdPages\<close> is a JavaScript \<^verbatim>\<open>Map\<close> (keys unique, kept in
  insertion order), here an association list that \<open>setActiveWireframe\<close> only extends
  for a key that is not yet present. \<^verbatim>\<open>null\<close> is \<open>None\<close>.
\<close>

record sessionState =
  createdPages :: "(string \<times> wireframe) list"
  activeWireframeId :: "string option"
  activePageId :: "string option"

text \<open>\<^verbatim>\<open>setActiveWireframe(wireframeId, pageId, name)\<close>; \<open>now\<close> is \<^verbatim>\<open>Date.now()\<close>.\<close>

definition setActiveWireframe ::
  "nat \<Rightarrow> string \<Rightarrow> string \<Rightarrow> string \<Rightarrow> sessionState \<Rightarrow> sessionState" where
  "setActiveWireframe now wid pid nm s =
     (let s1 = s\<lparr>activeWireframeId := Some wid, activePageId := Some pid\<rparr>
      in if map_of (createdPages s1) wid = None
         then s1\<lparr>createdPages := createdPages s1 @
                 [(wid, \<lparr>name = nm, wireframeId = wid, pageIds = [pid], createdAt = now\<rparr>)]\<rparr>
         else s1)"

text \<open>
  \<^verbatim>\<open>getActivePageId()\<close>. The outer test \<^verbatim>\<open>if (this.activePageId)\<close> is a truthiness
  test: it fails for \<^verbatim>\<open>null\<close> and for the empty string. The result is the returned id
  together with the updated session state.
\<close>

definition getActivePageId :: "figma \<Rightarrow> sessionState \<Rightarrow> string \<times> sessionState" where
  "getActivePageId h s =
     (case activePageId s of
        None \<Rightarrow> (currentPage h, s)
      | Some pid \<Rightarrow>
          if pid \<noteq> [] then
            (case getNodeById h pid of
               Some page \<Rightarrow> (pid, s)
             | None \<Rightarrow> (currentPage h, s\<lparr>activePageId := None\<rparr>))
          else (currentPage h, s))"

text \<open>\<^verbatim>\<open>switchToPage(pageId)\<close>: the result is the returned flag with the updated host and state.\<close>

definition switchToPage ::
  "string \<Rightarrow> figma \<Rightarrow> sessionState \<Rightarrow> bool \<times> figma \<times> sessionState" where
  "switchToPage pid h s =
     (case getNodeById h pid of
        Some page \<Rightarrow>
          if node_kind page = PAGE
          then (True, h\<lparr>currentPage := pid\<rparr>, s\<lparr>activePageId := Some pid\<rparr>)
          else (False, h, s)
      | None \<Rightarrow> (False, h, s))"

text \<open>\<^verbatim>\<open>addNodeToWireframe(wireframeId, node)\<close>, with the node given by its id.\<close>

definition addNodeToWireframe ::
  "nat \<Rightarrow> string \<Rightarrow> string \<Rightarrow> sessionState \<Rightarrow> sessionState" where
  "addNodeToWireframe now wid nid s =
     (if wid = [] then s
      else s\<lparr>createdPages :=
             map (\<lambda>(k, w). if k = wid
                    then (k, w\<lparr>pageIds := pageIds w @ [nid], createdAt := now\<rparr>)
                    else (k, w)) (createdPages s)\<rparr>)"

section \<open>JavaScript numbers and strings\<close>

text \<open>
  A value in a numeric slot of a JavaScript object: a finite number, \<^verbatim>\<open>NaN\<close>, or
  \<^verbatim>\<open>undefined\<close> (a missing property). Finite numbers are modelled exactly, as reals;
  the rounding of IEEE doubles and the infinities are outside the model. Arithmetic and
  comparison follow JavaScript: any operand that is not a number makes the result
  \<^verbatim>\<open>NaN\<close>, and every comparison with \<^verbatim>\<open>NaN\<close> is false.
\<close>

datatype jsnum = Undefined | NaN | Num real

instantiation jsnum :: "{plus, minus, times, ord}"
begin

fun plus_jsnum :: "jsnum \<Rightarrow> jsnum \<Rightarrow> jsnum" where
  "plus_jsnum (Num x) (Num y) = Num (x + y)"
| "plus_jsnum _ _ = NaN"

fun minus_jsnum :: "jsnum \<Rightarrow> jsnum \<Rightarrow> jsnum" where
  "minus_jsnum (Num x) (Num y) = Num (x - y)"
| "minus_jsnum _ _ = NaN"

fun times_jsnum :: "jsnum \<Rightarrow> jsnum \<Rightarrow> jsnum" where
  "times_jsnum (Num x) (Num y) = Num (x * y)"
| "times_jsnum _ _ = NaN"

fun less_jsnum :: "jsnum \<Rightarrow> jsnum \<Rightarrow> bool" where
  "less_jsnum (Num x) (Num y) = (x < y)"
| "less_jsnum _ _ = False"

fun less_eq_jsnum :: "jsnum \<Rightarrow> jsnum \<Rightarrow> bool" where
  "less_eq_jsnum (Num x) (Num y) = (x \<le> y)"
| "less_eq_jsnum _ _ = False"

instance ..

end

text \<open>Division by a non-zero literal, as in \<^verbatim>\<open>parseInt(...) / 255\<close>.\<close>

fun divide_by :: "jsnum \<Rightarrow> real \<Rightarrow> jsnum" where
  "divide_by (Num x) d = Num (x / d)"
| "divide_by _ d = NaN"

text \<open>
  Strings are lists of 8-bit characters, read as the code units 0 to 255. The white space
  that \<^verbatim>\<open>trim\<close> removes and \<^verbatim>\<open>parseInt\<close> skips is, in that range, tab, line feed,
  vertical tab, form feed, carriage return, space and the no-break space (160);
  \<^verbatim>\<open>toLowerCase\<close> maps \<^verbatim>\<open>A-Z\<close> to \<^verbatim>\<open>a-z\<close>.
\<close>

definition is_space :: "char \<Rightarrow> bool" where
  "is_space c = (let n = (of_char c :: nat) in (9 \<le> n \<and> n \<le> 13) \<or> n = 32 \<or> n = 160)"

definition trim :: "string \<Rightarrow> string" where
  "trim s = rev (dropWhile is_space (rev (dropWhile is_space s)))"

definition lower_char :: "char \<Rightarrow> char" where
  "lower_char c = (let n = (of_char c :: nat) in if 65 \<le> n \<and> n \<le> 90 then char_of (n + 32) else c)"

definition toLowerCase :: "string \<Rightarrow> string" where
  "toLowerCase s = map lower_char s"

definition startsWith :: "string \<Rightarrow> string \<Rightarrow> bool" where
  "startsWith s p = (take (length p) s = p)"

text \<open>\<^verbatim>\<open>s.substring(i, j)\<close> for \<open>i \<le> j\<close>; \<^verbatim>\<open>s.substring(i)\<close> is \<open>drop i s\<close>.\<close>

definition substring :: "string \<Rightarrow> nat \<Rightarrow> nat \<Rightarrow> string" where
  "substring s i j = take (j - i) (drop i s)"

text \<open>The value of a character as a digit: \<^verbatim>\<open>0-9\<close>, then \<^verbatim>\<open>a-z\<close> or \<^verbatim>\<open>A-Z\<close> from ten.\<close>

definition digit_value :: "char \<Rightarrow> nat option" where
  "digit_value c =
     (let n = (of_char c :: nat) in
      if 48 \<le> n \<and> n \<le> 57 then Some (n - 48)
      else if 97 \<le> n \<and> n \<le> 122 then Some (n - 87)
      else if 65 \<le> n \<and> n \<le> 90 then Some (n - 55)
      else None)"

definition is_digit_in :: "nat \<Rightarrow> char \<Rightarrow> bool" where
  "is_digit_in radix c = (case digit_value c of Some d \<Rightarrow> d < radix | None \<Rightarrow> False)"

definition digits_value :: "nat \<Rightarrow> string \<Rightarrow> nat" where
  "digits_value radix ds =
     foldl (\<lambda>acc c. acc * radix + (case digit_value c of Some d \<Rightarrow> d | None \<Rightarrow> 0)) 0 ds"

text \<open>
  \<^verbatim>\<open>parseInt(str, radix)\<close> with the radix 16 or absent (\<open>None\<close>): leading white space is
  skipped, one sign is read, a \<^verbatim>\<open>0x\<close> prefix is dropped (and selects base 16 when no radix
  is given), and the longest run of digits of the base is the value. The result is
  \<^verbatim>\<open>NaN\<close> when that run is empty; characters after the run are ignored.
\<close>

definition parseInt :: "string \<Rightarrow> nat option \<Rightarrow> jsnum" where
  "parseInt str radix =
     (let s1 = dropWhile is_space str;
          neg = (take 1 s1 = ''-'');
          s2 = (if take 1 s1 = ''-'' \<or> take 1 s1 = ''+'' then drop 1 s1 else s1);
          prefixed = (take 2 s2 = ''0x'' \<or> take 2 s2 = ''0X'');
          R = (case radix of Some n \<Rightarrow> n | None \<Rightarrow> if prefixed then 16 else 10);
          s3 = (if R = 16 \<and> prefixed then drop 2 s2 else s2);
          ds = takeWhile (is_digit_in R) s3
      in if ds = [] then NaN
         else Num (if neg then - real (digits_value R ds) else real (digits_value R ds)))"

text \<open>
  \<^verbatim>\<open>parseFloat(str)\<close> on the strings the parser passes to it, which are runs of decimal
  digits and dots: the integer part, then at most one dot with its fraction digits.
\<close>

definition parseFloat :: "string \<Rightarrow> jsnum" where
  "parseFloat str =
     (let ip = takeWhile (is_digit_in 10) str;
          rest = dropWhile (is_digit_in 10) str;
          fp = (if take 1 rest = ''.'' then takeWhile (is_digit_in 10) (drop 1 rest) else [])
      in if ip = [] \<and> fp = [] then NaN
         else Num (real (digits_value 10 ip) + real (digits_value 10 fp) / 10 ^ length fp))"

text \<open>
  \<^verbatim>\<open>colorStr.match(/[\d.]+/g)\<close>: the maximal runs of digits and dots, left to right.
  JavaScript returns \<^verbatim>\<open>null\<close> when there is no run; the parser only asks whether there
  are at least three, so the empty list stands for \<^verbatim>\<open>null\<close>.
\<close>

definition is_numchar :: "char \<Rightarrow> bool" where
  "is_numchar c = (is_digit_in 10 c \<or> c = CHR ''.'')"

fun runs :: "string \<Rightarrow> string \<Rightarrow> string list" where
  "runs cur [] = (if cur = [] then [] else [cur])"
| "runs cur (c # cs) =
     (if is_numchar c then runs (cur @ [c]) cs
      else if cur = [] then runs [] cs
      else cur # runs [] cs)"

definition match_numbers :: "string \<Rightarrow> string list" where
  "match_numbers s = runs [] s"

section \<open>Colour parser\<close>

text \<open>The colour record \<^verbatim>\<open>{r, g, b, a}\<close>.\<close>

record rgba =
  red :: jsnum
  green :: jsnum
  blue :: jsnum
  alpha :: jsnum

definition rgb :: "real \<Rightarrow> real \<Rightarrow> real \<Rightarrow> real \<Rightarrow> rgba" where
  "rgb x y z w = \<lparr>red = Num x, green = Num y, blue = Num z, alpha = Num w\<rparr>"

definition black :: rgba where
  "black = rgb 0 0 0 1"

text \<open>
  The argument \<^verbatim>\<open>colorInput\<close>: \<^verbatim>\<open>undefined\<close>, an object read through its properties
  \<^verbatim>\<open>r\<close>, \<^verbatim>\<open>g\<close>, \<^verbatim>\<open>b\<close>, \<^verbatim>\<open>a\<close> (a missing property reads as \<^verbatim>\<open>undefined\<close>), or a string.
\<close>

datatype color_input = InUndefined | InObject rgba | InString string

text \<open>
  What the parser returns: a colour record, or, when the name looked up in \<^verbatim>\<open>colorMap\<close>
  is a property that the object literal inherits from \<^verbatim>\<open>Object.prototype\<close>, that
  inherited member (a function or the prototype object, not a colour).
\<close>

datatype parsed = Color rgba | PrototypeMember string

text \<open>
  The property names every plain object inherits from \<^verbatim>\<open>Object.prototype\<close>. The
  \<^verbatim>\<open>in\<close> operator and a property read \<^verbatim>\<open>obj[key]\<close> both see them; each is a function
  or an object, hence truthy.
\<close>

definition object_prototype_keys :: "string list" where
  "object_prototype_keys =
     [''constructor'', ''__proto__'', ''hasOwnProperty'', ''isPrototypeOf'',
      ''propertyIsEnumerable'', ''toLocaleString'', ''toString'', ''valueOf'',
      ''__defineGetter__'', ''__defineSetter__'', ''__lookupGetter__'', ''__lookupSetter__'']"

text \<open>The table \<^verbatim>\<open>colorMap\<close> of named colours.\<close>

definition colorMap :: "(string \<times> rgba) list" where
  "colorMap =
     [(''transparent'', rgb 0 0 0 0),
      (''red'', rgb 1 0 0 1),
      (''green'', rgb 0 0.8 0 1),
      (''blue'', rgb 0 0 1 1),
      (''black'', rgb 0 0 0 1),
      (''white'', rgb 1 1 1 1),
      (''gray'', rgb 0.5 0.5 0.5 1),
      (''grey'', rgb 0.5 0.5 0.5 1),
      (''yellow'', rgb 1 1 0 1),
      (''purple'', rgb 0.5 0 0.5 1),
      (''orange'', rgb 1 0.65 0 1),
      (''pink'', rgb 1 0.75 0.8 1),
      (''primary'', rgb 0.12 0.47 0.71 1),
      (''secondary'', rgb 0.91 0.3 0.24 1),
      (''success'', rgb 0.3 0.69 0.31 1),
      (''warning'', rgb 1 0.76 0.03 1),
      (''error'', rgb 0.96 0.26 0.21 1),
      (''info'', rgb 0.13 0.59 0.95 1)]"

text \<open>
  The hex branch, entered when \<^verbatim>\<open>colorStr\<close> starts with \<^verbatim>\<open>#\<close>. \<open>None\<close> is the
  \<^verbatim>\<open>throw new Error('Invalid hex color format')\<close> that the surrounding \<^verbatim>\<open>catch\<close> turns
  into a warning, after which control falls through to the later branches.
  \<^verbatim>\<open>parseInt\<close> itself never throws.
\<close>

definition hex_channel :: "string \<Rightarrow> jsnum" where
  "hex_channel two = divide_by (parseInt two (Some 16)) 255"

definition parse_hex :: "string \<Rightarrow> rgba option" where
  "parse_hex colorStr =
     (let hex0 = drop 1 colorStr;
          hex = (if length hex0 = 3 then concat (map (\<lambda>c. [c, c]) hex0) else hex0)
      in if length hex = 8 then
           Some \<lparr>red = hex_channel (substring hex 0 2),
                 green = hex_channel (substring hex 2 4),
                 blue = hex_channel (substring hex 4 6),
                 alpha = hex_channel (substring hex 6 8)\<rparr>
         else if length hex = 6 then
           Some \<lparr>red = hex_channel (substring hex 0 2),
                 green = hex_channel (substring hex 2 4),
                 blue = hex_channel (substring hex 4 6),
                 alpha = Num 1\<rparr>
         else if length hex = 4 then
           Some \<lparr>red = hex_channel (substring hex 0 1 @ substring hex 0 1),
                 green = hex_channel (substring hex 1 2 @ substring hex 1 2),
                 blue = hex_channel (substring hex 2 3 @ substring hex 2 3),
                 alpha = hex_channel (substring hex 3 4 @ substring hex 3 4)\<rparr>
         else None)"

text \<open>
  The \<^verbatim>\<open>rgb\<close>/\<^verbatim>\<open>rgba\<close> branch, entered when \<^verbatim>\<open>colorStr\<close> starts with \<^verbatim>\<open>rgb\<close>. \<open>None\<close>
  means fewer than three numeric runs: the branch returns nothing and control falls through.
\<close>

definition parse_rgb :: "string \<Rightarrow> rgba option" where
  "parse_rgb colorStr =
     (let values = match_numbers colorStr
      in if length values \<ge> 3 then
           Some \<lparr>red = divide_by (parseInt (values ! 0) None) 255,
                 green = divide_by (parseInt (values ! 1) None) 255,
                 blue = divide_by (parseInt (values ! 2) None) 255,
                 alpha = (if length values \<ge> 4 then parseFloat (values ! 3) else Num 1)\<rparr>
         else None)"

text \<open>The inner function \<^verbatim>\<open>hue2rgb(p, q, t)\<close>, with the two reassignments of \<^verbatim>\<open>t\<close>.\<close>

definition hue2rgb :: "jsnum \<Rightarrow> jsnum \<Rightarrow> jsnum \<Rightarrow> jsnum" where
  "hue2rgb p q t0 =
     (let t1 = (if t0 < Num 0 then t0 + Num 1 else t0);
          t = (if Num 1 < t1 then t1 - Num 1 else t1)
      in if t < Num (1 / 6) then p + (q - p) * Num 6 * t
         else if t < Num (1 / 2) then q
         else if t < Num (2 / 3) then p + (q - p) * (Num (2 / 3) - t) * Num 6
         else p)"

text \<open>The \<^verbatim>\<open>hsl\<close>/\<^verbatim>\<open>hsla\<close> branch, entered when \<^verbatim>\<open>colorStr\<close> starts with \<^verbatim>\<open>hsl\<close>.\<close>

definition parse_hsl :: "string \<Rightarrow> rgba option" where
  "parse_hsl colorStr =
     (let values = match_numbers colorStr
      in if length values \<ge> 3 then
           (let h = divide_by (parseInt (values ! 0) None) 360;
                s = divide_by (parseInt (values ! 1) None) 100;
                l = divide_by (parseInt (values ! 2) None) 100;
                al = (if length values \<ge> 4 then parseFloat (values ! 3) else Num 1)
            in if s = Num 0 then Some \<lparr>red = l, green = l, blue = l, alpha = al\<rparr>
               else
                 (let q = (if l < Num 0.5 then l * (Num 1 + s) else l + s - l * s);
                      p = Num 2 * l - q
                  in Some \<lparr>red = hue2rgb p q (h + Num (1 / 3)),
                           green = hue2rgb p q h,
                           blue = hue2rgb p q (h - Num (1 / 3)),
                           alpha = al\<rparr>))
         else None)"

text \<open>
  The lookup \<^verbatim>\<open>lowerColorStr in colorMap\<close> followed by \<^verbatim>\<open>colorMap[lowerColorStr]\<close>, and
  the final fallback to opaque black.
\<close>

definition parse_named :: "string \<Rightarrow> parsed" where
  "parse_named colorStr =
     (let lowerColorStr = toLowerCase colorStr
      in case map_of colorMap lowerColorStr of
           Some c \<Rightarrow> Color c
         | None \<Rightarrow>
             if lowerColorStr \<in> set object_prototype_keys then PrototypeMember lowerColorStr
             else Color black)"

text \<open>Everything after the brand-colour check, on the trimmed string.\<close>

definition parse_formats :: "string \<Rightarrow> parsed" where
  "parse_formats colorStr =
     (case (if startsWith colorStr ''#'' then parse_hex colorStr else None) of
        Some c \<Rightarrow> Color c
      | None \<Rightarrow>
     (case (if startsWith colorStr ''rgb'' then parse_rgb colorStr else None) of
        Some c \<Rightarrow> Color c
      | None \<Rightarrow>
     (case (if startsWith colorStr ''hsl'' then parse_hsl colorStr else None) of
        Some c \<Rightarrow> Color c
      | None \<Rightarrow> parse_named colorStr)))"

text \<open>
  The brand-colour check. \<^verbatim>\<open>brandColors\<close> is \<^verbatim>\<open>undefined\<close> (\<open>None\<close>) or an object with
  string-valued own properties. The result is the value handed to the recursive call:
  an own property that is a non-empty string, or an inherited member of
  \<^verbatim>\<open>Object.prototype\<close>, which is truthy and has no \<^verbatim>\<open>r\<close>, \<^verbatim>\<open>g\<close>, \<^verbatim>\<open>b\<close>, \<^verbatim>\<open>a\<close>.
\<close>

definition brand_lookup :: "string \<Rightarrow> (string \<rightharpoonup> string) option \<Rightarrow> color_input option" where
  "brand_lookup colorStr brandColors =
     (case brandColors of
        None \<Rightarrow> None
      | Some m \<Rightarrow>
          if startsWith colorStr ''brand:'' \<or> startsWith colorStr ''#'' then
            (let colorKey = (if startsWith colorStr ''brand:'' then drop 6 colorStr
                             else drop 1 colorStr)
             in case m colorKey of
                  Some v \<Rightarrow> if v \<noteq> [] then Some (InString v) else None
                | None \<Rightarrow>
                    if colorKey \<in> set object_prototype_keys
                    then Some (InObject \<lparr>red = Undefined, green = Undefined,
                                         blue = Undefined, alpha = Undefined\<rparr>)
                    else None)
          else None)"

text \<open>
  \<^verbatim>\<open>enhancedParseColor(colorInput, brandColors)\<close>. The recursive call is
  \<^verbatim>\<open>enhancedParseColor(brandColors[colorKey])\<close>: it passes no brand map.
\<close>

function enhancedParseColor :: "color_input \<Rightarrow> (string \<rightharpoonup> string) option \<Rightarrow> parsed" where
  "enhancedParseColor colorInput brandColors =
     (case colorInput of
        InUndefined \<Rightarrow> Color black
      | InObject c \<Rightarrow>
          Color \<lparr>red = red c, green = green c, blue = blue c,
                 alpha = (if alpha c \<noteq> Undefined then alpha c else Num 1)\<rparr>
      | InString str \<Rightarrow>
          if str = [] then Color black
          else
            (case brand_lookup (trim str) brandColors of
               Some v \<Rightarrow> enhancedParseColor v None
             | None \<Rightarrow> parse_formats (trim str)))"
  by pat_completeness auto
termination
  by (relation "measure (\<lambda>(c, b). case b of None \<Rightarrow> 0 | Some m \<Rightarrow> Suc 0)")
     (auto simp: brand_lookup_def split: option.splits)

declare enhancedParseColor.simps [simp del]

text \<open>
  Modelled from the spec: the formatter of the round-trip property, which the repository
  does not contain. A colour is written as \<^verbatim>\<open>#RRGGBBAA\<close>, each channel multiplied by
  255, rounded to the nearest integer (\<^verbatim>\<open>Math.round\<close>, halves upwards) and written as
  two hex digits.
\<close>

definition hex_char :: "nat \<Rightarrow> char" where
  "hex_char n = (if n < 10 then char_of (48 + n) else char_of (87 + n))"

definition channel_byte :: "jsnum \<Rightarrow> nat" where
  "channel_byte c = (case c of Num x \<Rightarrow> nat (round (x * 255)) | _ \<Rightarrow> 0)"

definition hex2 :: "nat \<Rightarrow> string" where
  "hex2 n = [hex_char (n div 16), hex_char (n mod 16)]"

definition format_hex8 :: "rgba \<Rightarrow> string" where
  "format_hex8 c =
     CHR ''#'' # hex2 (channel_byte (red c)) @ hex2 (channel_byte (green c))
       @ hex2 (channel_byte (blue c)) @ hex2 (channel_byte (alpha c))"

text \<open>
  A hex literal of a supported form: \<^verbatim>\<open>#\<close> followed by 3, 4, 6 or 8 hexadecimal digits.
\<close>

definition hex_literal :: "string \<Rightarrow> bool" where
  "hex_literal s =
     (case s of
        [] \<Rightarrow> False
      | c # ds \<Rightarrow> c = CHR ''#'' \<and> length ds \<in> {3, 4, 6, 8} \<and> list_all (is_digit_in 16) ds)"

definition in_unit :: "jsnum \<Rightarrow> bool" where
  "in_unit c = (case c of Num x \<Rightarrow> 0 \<le> x \<and> x \<le> 1 | _ \<Rightarrow> False)"

definition normalized :: "rgba \<Rightarrow> bool" where
  "normalized c = (in_unit (red c) \<and> in_unit (green c) \<and> in_unit (blue c) \<and> in_unit (alpha c))"

text \<open>
  Inputs whose components are in range. For a string, the trimmed text is a hex literal,
  a name of \<^verbatim>\<open>colorMap\<close> in any letter case, an \<^verbatim>\<open>rgb\<close>/\<^verbatim>\<open>rgba\<close> form whose first
  three numeric runs read as integers from 0 to 255 and whose fourth run, if there is
  one, reads as a number from 0 to 1, an \<^verbatim>\<open>hsl\<close>/\<^verbatim>\<open>hsla\<close> form in range (below),
  or a text that no branch of the parser recognizes (below). For an object, every channel
  present is in \<open>[0,1]\<close>.
\<close>

definition byte_range :: "jsnum \<Rightarrow> bool" where
  "byte_range x = (Num 0 \<le> x \<and> x \<le> Num 255)"

definition rgb_in_range :: "string \<Rightarrow> bool" where
  "rgb_in_range t =
     (let values = match_numbers t
      in startsWith t ''rgb'' \<and> length values \<ge> 3
         \<and> byte_range (parseInt (values ! 0) None)
         \<and> byte_range (parseInt (values ! 1) None)
         \<and> byte_range (parseInt (values ! 2) None)
         \<and> (length values < 4 \<or> in_unit (parseFloat (values ! 3))))"

definition named_color :: "string \<Rightarrow> bool" where
  "named_color t = (map_of colorMap (toLowerCase t) \<noteq> None)"

text \<open>
  An \<^verbatim>\<open>hsl\<close>/\<^verbatim>\<open>hsla\<close> form in range: the second and third numeric runs (saturation and
  lightness) read as integers from 0 to 100 and the fourth run, if there is one, reads as
  a number from 0 to 1. The hue is not restricted.
\<close>

definition percent_range :: "jsnum \<Rightarrow> bool" where
  "percent_range x = (Num 0 \<le> x \<and> x \<le> Num 100)"

definition hsl_in_range :: "string \<Rightarrow> bool" where
  "hsl_in_range t =
     (let values = match_numbers t
      in startsWith t ''hsl'' \<and> length values \<ge> 3
         \<and> percent_range (parseInt (values ! 1) None)
         \<and> percent_range (parseInt (values ! 2) None)
         \<and> (length values < 4 \<or> in_unit (parseFloat (values ! 3))))"

text \<open>
  A text that no branch recognizes, so that the parser ends at its last line: after
  \<^verbatim>\<open>#\<close> there are not 3, 4, 6 or 8 characters, after \<^verbatim>\<open>rgb\<close> or \<^verbatim>\<open>hsl\<close> there are fewer
  than three numeric runs, and the text in lower case is neither a name of \<^verbatim>\<open>colorMap\<close>
  nor a name inherited from \<^verbatim>\<open>Object.prototype\<close>.
\<close>

definition unrecognized :: "string \<Rightarrow> bool" where
  "unrecognized t =
     ((startsWith t ''#'' \<longrightarrow> length (drop 1 t) \<notin> {3, 4, 6, 8})
      \<and> (startsWith t ''rgb'' \<or> startsWith t ''hsl'' \<longrightarrow> length (match_numbers t) < 3)
      \<and> map_of colorMap (toLowerCase t) = None
      \<and> toLowerCase t \<notin> set object_prototype_keys)"

text \<open>
  The input that is parsed in the end: for a string that the brand-colour check resolves,
  the value handed to the recursive call, and the input itself otherwise.
\<close>

definition resolved_input :: "color_input \<Rightarrow> (string \<rightharpoonup> string) option \<Rightarrow> color_input" where
  "resolved_input colorInput brandColors =
     (case colorInput of
        InString str \<Rightarrow>
          if str = [] then colorInput
          else (case brand_lookup (trim str) brandColors of
                  Some v \<Rightarrow> v
                | None \<Rightarrow> colorInput)
      | _ \<Rightarrow> colorInput)"

fun in_range :: "color_input \<Rightarrow> bool" where
  "in_range InUndefined = True"
| "in_range (InObject c) =
     (in_unit (red c) \<and> in_unit (green c) \<and> in_unit (blue c)
      \<and> (alpha c = Undefined \<or> in_unit (alpha c)))"
| "in_range (InString s) =
     (s = [] \<or> hex_literal (trim s) \<or> named_color (trim s) \<or> rgb_in_range (trim s)
      \<or> hsl_in_range (trim s) \<or> unrecognized (trim s))"

section \<open>Messages and responses\<close>

text \<open>
  A payload is an untyped object; the model gives it the properties the handlers below
  read, each optional (\<open>None\<close> or \<open>Undefined\<close> when the property is missing).
\<close>

record dimensions =
  dim_width :: jsnum
  dim_height :: jsnum

record export_settings =
  format :: "string option"
  constraint_value :: jsnum

text \<open>
  A value of an untyped property: \<^verbatim>\<open>undefined\<close>, a number, a string, or any other value
  (\<^verbatim>\<open>null\<close>, a boolean, an object), which is kept only with its truthiness.
\<close>

datatype jsval = JUndefined | JNumber jsnum | JString string | JOther bool

record position =
  pos_x :: jsnum
  pos_y :: jsnum
  pos_width :: jsnum
  pos_height :: jsnum

record properties =
  prop_name :: "string option"
  prop_position :: "position option"
  layoutPosition :: jsval
  pointCount :: jsval

record payload =
  description :: "string option"
  pages :: "string list option"
  style :: "string option"
  dimensions :: "dimensions option"
  renamePage :: bool
  selection_ids :: "string list option"
  settings :: "export_settings option"
  elementType :: "string option"
  parent :: "string option"
  element_properties :: "properties option"
  elementId :: "string option"
  parentId :: "string option"

record PluginMessage =
  msg_type :: string
  msg_payload :: "payload option"
  msg_id :: string

record export_file =
  file_name :: string
  file_data :: string
  file_format :: string
  file_nodeId :: string

datatype response_data =
    UiReady string string
  | WireframeCreated string "string list" string string
  | Exported "export_file list" string
  | ElementAdded node
  | OtherData

record PluginResponse =
  resp_type :: string
  success :: bool
  resp_data :: "response_data option"
  resp_error :: "string option"
  resp_id :: "string option"
  isResponse :: bool

text \<open>
  The running plugin: the host, the session state and the responses posted to the UI so
  far, oldest first. \<^verbatim>\<open>sendResponse\<close> marks the response and posts it.
\<close>

record plugin =
  host :: figma
  session :: sessionState
  outbox :: "PluginResponse list"

definition sendResponse :: "PluginResponse \<Rightarrow> plugin \<Rightarrow> plugin" where
  "sendResponse response p = p\<lparr>outbox := outbox p @ [response\<lparr>isResponse := True\<rparr>]\<rparr>"

text \<open>\<^verbatim>\<open>v || d\<close> for a number \<open>v\<close>: \<open>d\<close> when \<open>v\<close> is \<^verbatim>\<open>undefined\<close>, \<^verbatim>\<open>NaN\<close> or zero.\<close>

definition or_default :: "jsnum \<Rightarrow> real \<Rightarrow> real" where
  "or_default v d = (case v of Num x \<Rightarrow> if x = 0 then d else x | _ \<Rightarrow> d)"

section \<open>CREATE_WIREFRAME\<close>

definition applyBaseStyle :: "node \<Rightarrow> string \<Rightarrow> node" where
  "applyBaseStyle frame style_name =
     (let st = toLowerCase style_name
      in if st = ''minimal'' then frame\<lparr>node_fills := [SOLID 1 1 1]\<rparr>
         else if st = ''dark'' then frame\<lparr>node_fills := [SOLID 0.1 0.1 0.1]\<rparr>
         else if st = ''colorful'' then frame\<lparr>node_fills := [SOLID 0.98 0.98 0.98]\<rparr>
         else frame\<lparr>node_fills := [SOLID 1 1 1]\<rparr>)"

text \<open>
  The loop \<^verbatim>\<open>for (const pageName of pages)\<close>, with \<^verbatim>\<open>pageFrames\<close> as accumulator;
  \<^verbatim>\<open>pageIds\<close> is pushed in step with it and is \<open>map node_id pageFrames\<close> (\<open>ids\<close>
  below; \<open>wid\<close> is \<^verbatim>\<open>wireframeId\<close>).
\<close>

fun create_page_frames ::
  "real \<Rightarrow> real \<Rightarrow> string \<Rightarrow> string list \<Rightarrow> node list \<Rightarrow> figma \<Rightarrow> node list \<times> figma" where
  "create_page_frames width height style_name [] pageFrames h = (pageFrames, h)"
| "create_page_frames width height style_name (pageName # rest) pageFrames h =
     (let (frame0, h1) = create_node FRAME ''Frame'' 0 h;
          frame1 = frame0\<lparr>node_name := pageName, node_width := width, node_height := height,
                         node_x := real (length pageFrames) * (width + 100),
                         node_parent := Some (currentPage h)\<rparr>;
          frame = applyBaseStyle frame1 style_name
      in create_page_frames width height style_name rest (pageFrames @ [frame]) (store frame h1))"

definition rename_node :: "string \<Rightarrow> string \<Rightarrow> figma \<Rightarrow> figma" where
  "rename_node i nm h =
     h\<lparr>document := map (\<lambda>n. if node_id n = i then n\<lparr>node_name := nm\<rparr> else n) (document h)\<rparr>"

text \<open>
  \<^verbatim>\<open>handleCreateWireframe(message)\<close>. The result is the message of the error thrown, if
  one is, and the plugin afterwards; \<open>now\<close> is \<^verbatim>\<open>Date.now()\<close>.
\<close>

definition handleCreateWireframe :: "nat \<Rightarrow> PluginMessage \<Rightarrow> plugin \<Rightarrow> string option \<times> plugin" where
  "handleCreateWireframe now message p =
     (case msg_payload message of
        None \<Rightarrow> (Some ''No payload provided for CREATE_WIREFRAME command'', p)
      | Some pl \<Rightarrow>
          (let descr = (case description pl of None \<Rightarrow> ''Untitled Wireframe'' | Some d \<Rightarrow> d);
               page_names = (case pages pl of None \<Rightarrow> [''Home''] | Some ps \<Rightarrow> ps);
               style_name = (case style pl of None \<Rightarrow> ''minimal'' | Some st \<Rightarrow> st);
               dims = (case dimensions pl of
                         None \<Rightarrow> \<lparr>dim_width = Num 1440, dim_height = Num 900\<rparr>
                       | Some d \<Rightarrow> d);
               activePage = currentPage (host p);
               h0 = (if renamePage pl
                     then rename_node activePage
                            (''Wireframe: '' @ take 20 descr
                               @ (if length descr > 20 then ''...'' else '''')) (host p)
                     else host p);
               width = or_default (dim_width dims) 1440;
               height = or_default (dim_height dims) 900;
               (pageFrames, h1) = create_page_frames width height style_name page_names [] h0;
               ids = map node_id pageFrames;
               wid = (if length ids > 0 then ids ! 0 else activePage);
               s1 = setActiveWireframe now wid activePage descr (session p)
           in (None,
               sendResponse
                 \<lparr>resp_type = msg_type message, success = True,
                    resp_data = Some (WireframeCreated wid ids activePage wid),
                    resp_error = None, resp_id = Some (msg_id message), isResponse = False\<rparr>
                 (p\<lparr>host := h1, session := s1\<rparr>))))"

section \<open>ADD_ELEMENT\<close>

text \<open>Truthiness of a property value, as tested by \<^verbatim>\<open>if (v)\<close> and \<^verbatim>\<open>v && ...\<close>.\<close>

fun truthy :: "jsval \<Rightarrow> bool" where
  "truthy JUndefined = False"
| "truthy (JNumber (Num x)) = (x \<noteq> 0)"
| "truthy (JNumber _) = False"
| "truthy (JString s) = (s \<noteq> [])"
| "truthy (JOther b) = b"

record HandleResponse =
  hr_success :: bool
  hr_error :: "string option"
  hr_data :: "response_data option"

definition createErrorResponse :: "string \<Rightarrow> HandleResponse" where
  "createErrorResponse message = \<lparr>hr_success = False, hr_error = Some message, hr_data = None\<rparr>"

definition createSuccessResponse :: "response_data \<Rightarrow> HandleResponse" where
  "createSuccessResponse d = \<lparr>hr_success = True, hr_error = None, hr_data = Some d\<rparr>"

definition no_position :: position where
  "no_position = \<lparr>pos_x = Undefined, pos_y = Undefined, pos_width = Undefined,
                    pos_height = Undefined\<rparr>"

definition no_properties :: properties where
  "no_properties = \<lparr>prop_name = None, prop_position = None, layoutPosition = JUndefined,
                      pointCount = JUndefined\<rparr>"

text \<open>
  The parent lookup: \<^verbatim>\<open>parent\<close> is the node of the given id, if an id is given and
  resolves; \<^verbatim>\<open>parentPage\<close> is that node when it is a page and the current page
  otherwise; \<^verbatim>\<open>parentFrame\<close> is that node when it is a container.
\<close>

definition lookup_parent :: "figma \<Rightarrow> string option \<Rightarrow> node option" where
  "lookup_parent h given =
     (case given of None \<Rightarrow> None | Some i \<Rightarrow> if i = [] then None else getNodeById h i)"

definition parentPage :: "figma \<Rightarrow> node option \<Rightarrow> string" where
  "parentPage h par =
     (case par of
        Some n \<Rightarrow> if node_kind n = PAGE then node_id n else currentPage h
      | None \<Rightarrow> currentPage h)"

definition parentFrame :: "node option \<Rightarrow> node option" where
  "parentFrame par =
     (case par of
        Some n \<Rightarrow> if node_kind n \<in> {FRAME, GROUP, COMPONENT, COMPONENT_SET, INSTANCE}
                  then Some n else None
      | None \<Rightarrow> None)"

text \<open>
  The position of the new element (the variables \<^verbatim>\<open>x\<close> and \<^verbatim>\<open>y\<close>): first the explicit
  coordinates, zero where one is missing; then, when \<^verbatim>\<open>properties.layoutPosition\<close> is
  truthy, the \<^verbatim>\<open>switch\<close> over the five keywords, which assigns both again.
\<close>

definition element_position ::
  "figma \<Rightarrow> node option \<Rightarrow> position \<Rightarrow> jsval \<Rightarrow> jsnum \<times> jsnum" where
  "element_position h pframe pos lp =
     (let x = (if pos_x pos \<noteq> Undefined then pos_x pos else Num 0);
          y = (if pos_y pos \<noteq> Undefined then pos_y pos else Num 0)
      in if truthy lp then
           (let parentWidth = (case pframe of Some f \<Rightarrow> node_width f | None \<Rightarrow> viewport_width h);
                parentHeight = (case pframe of Some f \<Rightarrow> node_height f | None \<Rightarrow> viewport_height h)
            in if lp = JString ''top'' then
                 (Num ((parentWidth - or_default (pos_width pos) 100) / 2), Num 0)
               else if lp = JString ''bottom'' then
                 (Num ((parentWidth - or_default (pos_width pos) 100) / 2),
                  Num (parentHeight - or_default (pos_height pos) 50))
               else if lp = JString ''left'' then
                 (Num 0, Num ((parentHeight - or_default (pos_height pos) 100) / 2))
               else if lp = JString ''right'' then
                 (Num (parentWidth - or_default (pos_width pos) 50),
                  Num ((parentHeight - or_default (pos_height pos) 100) / 2))
               else if lp = JString ''center'' then
                 (Num ((parentWidth - or_default (pos_width pos) 100) / 2),
                  Num ((parentHeight - or_default (pos_height pos) 100) / 2))
               else (x, y))
         else (x, y))"

text \<open>
  \<^verbatim>\<open>applyExtendedStyles(node, enrichedStyles)\<close> for a payload without
  \<^verbatim>\<open>properties.styles\<close>, so that \<^verbatim>\<open>enrichedStyles\<close> is
  \<^verbatim>\<open>{x, y, width: position.width, height: position.height}\<close>: the node is moved to
  \<open>(x, y)\<close> and resized. The host's setters take numbers; on \<^verbatim>\<open>NaN\<close> the setter throws,
  the \<^verbatim>\<open>catch\<close> of \<^verbatim>\<open>applyExtendedStyles\<close> logs the error and the remaining styles are
  skipped.
\<close>

definition applyExtendedStyles :: "jsnum \<Rightarrow> jsnum \<Rightarrow> jsnum \<Rightarrow> jsnum \<Rightarrow> node \<Rightarrow> node" where
  "applyExtendedStyles x y w ht n =
     (case x of
        Num a \<Rightarrow>
          (let n1 = n\<lparr>node_x := a\<rparr>
           in case y of
                Num b \<Rightarrow>
                  (let n2 = n1\<lparr>node_y := b\<rparr>;
                       width = (if w \<noteq> Undefined then w else Num (node_width n2));
                       height = (if ht \<noteq> Undefined then ht else Num (node_height n2))
                   in case (width, height) of
                        (Num c, Num d) \<Rightarrow> n2\<lparr>node_width := c, node_height := d\<rparr>
                      | _ \<Rightarrow> n2)
              | _ \<Rightarrow> n1)
      | _ \<Rightarrow> n)"

text \<open>
  \<^verbatim>\<open>if (properties.pointCount && typeof properties.pointCount === 'number')\<close>
  \<^verbatim>\<open>node.pointCount = Math.max(3, Math.min(most, properties.pointCount))\<close>, where
  \<open>most\<close> is 12 for a polygon and 20 for a star.
\<close>

definition set_pointCount :: "real \<Rightarrow> jsval \<Rightarrow> node \<Rightarrow> node" where
  "set_pointCount most pc n =
     (if truthy pc then
        (case pc of
           JNumber (Num v) \<Rightarrow> n\<lparr>node_pointCount := max 3 (min most v)\<rparr>
         | _ \<Rightarrow> n)
      else n)"

text \<open>
  The branches that create a single node. \<^verbatim>\<open>case 'RECTANGLE'\<close>, \<^verbatim>\<open>case 'ELLIPSE'\<close> and
  \<^verbatim>\<open>case 'VECTOR'\<close> are \<open>create_box\<close>, \<^verbatim>\<open>case 'POLYGON'\<close> and \<^verbatim>\<open>case 'STAR'\<close> are
  \<open>create_pointed\<close>; within each pair the branches differ in the constructor, the
  default name and the bound on the point count. \<^verbatim>\<open>case 'FRAME'\<close> is \<open>create_frame\<close>, for
  a payload without \<^verbatim>\<open>properties.text\<close> and \<^verbatim>\<open>properties.content\<close> (the record
  \<open>properties\<close> has neither), so that no text child is made. \<^verbatim>\<open>case 'LINE'\<close> is
  \<open>create_line\<close>; its strokes, stroke weight and stroke cap are not part of the record
  \<open>node\<close>. \<open>pid\<close> is the id of \<^verbatim>\<open>parentFrame\<close> if there is one and of \<^verbatim>\<open>parentPage\<close>
  otherwise.
\<close>

definition create_box ::
  "node_type \<Rightarrow> string \<Rightarrow> properties \<Rightarrow> position \<Rightarrow> string \<Rightarrow> jsnum \<times> jsnum \<Rightarrow> figma \<Rightarrow> node \<times> figma" where
  "create_box kind default_name props pos pid xy h =
     (let (n0, h1) = create_node kind default_name 0 h;
          n1 = n0\<lparr>node_name := (case prop_name props of
                                    None \<Rightarrow> default_name
                                  | Some nm \<Rightarrow> if nm = [] then default_name else nm),
                  node_parent := Some pid\<rparr>;
          n2 = n1\<lparr>node_width := or_default (pos_width pos) 100,
                  node_height := or_default (pos_height pos) 100\<rparr>;
          n3 = n2\<lparr>node_fills := [SOLID 0.9 0.9 0.9]\<rparr>;
          n4 = applyExtendedStyles (fst xy) (snd xy) (pos_width pos) (pos_height pos) n3
      in (n4, store n4 h1))"

definition create_pointed ::
  "node_type \<Rightarrow> string \<Rightarrow> real \<Rightarrow> real \<Rightarrow> properties \<Rightarrow> position \<Rightarrow> string \<Rightarrow> jsnum \<times> jsnum
     \<Rightarrow> figma \<Rightarrow> node \<times> figma" where
  "create_pointed kind default_name default_points most props pos pid xy h =
     (let (n0, h1) = create_node kind default_name default_points h;
          n1 = n0\<lparr>node_name := (case prop_name props of
                                    None \<Rightarrow> default_name
                                  | Some nm \<Rightarrow> if nm = [] then default_name else nm),
                  node_parent := Some pid\<rparr>;
          n2 = n1\<lparr>node_width := or_default (pos_width pos) 100,
                  node_height := or_default (pos_width pos) 100\<rparr>;
          n3 = set_pointCount most (pointCount props) n2;
          n4 = n3\<lparr>node_fills := [SOLID 0.9 0.9 0.9]\<rparr>;
          n5 = applyExtendedStyles (fst xy) (snd xy) (pos_width pos) (pos_height pos) n4
      in (n5, store n5 h1))"

definition create_frame ::
  "properties \<Rightarrow> position \<Rightarrow> string \<Rightarrow> jsnum \<times> jsnum \<Rightarrow> figma \<Rightarrow> node \<times> figma" where
  "create_frame props pos pid xy h =
     (let (n0, h1) = create_node FRAME ''Frame'' 0 h;
          n1 = n0\<lparr>node_name := (case prop_name props of
                                    None \<Rightarrow> ''Frame''
                                  | Some nm \<Rightarrow> if nm = [] then ''Frame'' else nm),
                  node_parent := Some pid\<rparr>;
          n2 = n1\<lparr>node_width := or_default (pos_width pos) 400,
                  node_height := or_default (pos_height pos) 300\<rparr>;
          n3 = n2\<lparr>node_fills := [SOLID 1 1 1]\<rparr>;
          n4 = applyExtendedStyles (fst xy) (snd xy) (pos_width pos) (pos_height pos) n3
      in (n4, store n4 h1))"

definition create_line ::
  "properties \<Rightarrow> position \<Rightarrow> string \<Rightarrow> jsnum \<times> jsnum \<Rightarrow> figma \<Rightarrow> node \<times> figma" where
  "create_line props pos pid xy h =
     (let (n0, h1) = create_node LINE ''Line'' 0 h;
          n1 = n0\<lparr>node_name := (case prop_name props of
                                    None \<Rightarrow> ''Line''
                                  | Some nm \<Rightarrow> if nm = [] then ''Line'' else nm),
                  node_parent := Some pid\<rparr>;
          n2 = n1\<lparr>node_width := or_default (pos_width pos) 100, node_height := 0\<rparr>;
          n3 = applyExtendedStyles (fst xy) (snd xy) (pos_width pos) (pos_height pos) n2
      in (n3, store n3 h1))"

text \<open>
  The element types whose branches are not modelled; their outcome is a parameter. Each
  of them makes a text node, for which a font is loaded, and all but \<^verbatim>\<open>TEXT\<close> can return
  a group of several nodes.
\<close>

definition composite_types :: "string list" where
  "composite_types = [''TEXT'', ''BUTTON'', ''INPUT'', ''CARD'', ''NAVBAR'', ''CUSTOM'']"

text \<open>
  \<^verbatim>\<open>handleAddElement(msg)\<close>. The whole body is inside \<^verbatim>\<open>try\<close>, whose \<^verbatim>\<open>catch\<close> returns an
  error response, so the function always returns a \<^verbatim>\<open>HandleResponse\<close> and never throws;
  it does not call \<^verbatim>\<open>sendResponse\<close>. \<open>default_points k\<close> is the point count the host
  gives a new polygon or star, and \<open>other\<close> stands for the branches of
  \<open>composite_types\<close>, which work on the host and the session state.
\<close>

definition handleAddElement ::
  "nat \<Rightarrow> (node_type \<Rightarrow> real)
     \<Rightarrow> (string \<Rightarrow> payload \<Rightarrow> figma \<Rightarrow> sessionState \<Rightarrow> HandleResponse \<times> figma \<times> sessionState)
     \<Rightarrow> PluginMessage \<Rightarrow> plugin \<Rightarrow> HandleResponse \<times> plugin" where
  "handleAddElement now default_points other msg p =
     (case msg_payload msg of
        None \<Rightarrow> (createErrorResponse ''Invalid payload for ADD_ELEMENT command'', p)
      | Some pl \<Rightarrow>
     (case elementType pl of
        None \<Rightarrow> (createErrorResponse ''Invalid payload for ADD_ELEMENT command'', p)
      | Some nodeType \<Rightarrow>
          if nodeType = [] then
            (createErrorResponse ''Invalid payload for ADD_ELEMENT command'', p)
          else
            (let props = (case element_properties pl of None \<Rightarrow> no_properties | Some pr \<Rightarrow> pr);
                 pos = (case prop_position props of None \<Rightarrow> no_position | Some ps \<Rightarrow> ps);
                 par = lookup_parent (host p) (parent pl);
                 pframe = parentFrame par;
                 pid = (case pframe of Some f \<Rightarrow> node_id f | None \<Rightarrow> parentPage (host p) par);
                 xy = element_position (host p) pframe pos (layoutPosition props);
                 finish = (\<lambda>(createdNode, h1).
                    (createSuccessResponse (ElementAdded createdNode),
                     p\<lparr>host := h1,
                       session := (case activeWireframeId (session p) of
                                     None \<Rightarrow> session p
                                   | Some wid \<Rightarrow>
                                       addNodeToWireframe now wid (node_id createdNode)
                                         (session p))\<rparr>))
             in if nodeType = ''RECTANGLE'' then
                  finish (create_box RECTANGLE ''Rectangle'' props pos pid xy (host p))
                else if nodeType = ''ELLIPSE'' then
                  finish (create_box ELLIPSE ''Ellipse'' props pos pid xy (host p))
                else if nodeType = ''POLYGON'' then
                  finish (create_pointed POLYGON ''Polygon'' (default_points POLYGON) 12
                            props pos pid xy (host p))
                else if nodeType = ''STAR'' then
                  finish (create_pointed STAR ''Star'' (default_points STAR) 20
                            props pos pid xy (host p))
                else if nodeType = ''FRAME'' then
                  finish (create_frame props pos pid xy (host p))
                else if nodeType = ''LINE'' then
                  finish (create_line props pos pid xy (host p))
                else if nodeType = ''VECTOR'' then
                  finish (create_box VECTOR ''Vector'' props pos pid xy (host p))
                else if nodeType \<in> set composite_types then
                  (let (res, h1, s1) = other nodeType pl (host p) (session p)
                   in (res, p\<lparr>host := h1, session := s1\<rparr>))
                else (createErrorResponse (''Unsupported element type: '' @ nodeType), p))))"




section \<open>EXPORT_DESIGN\<close>

text \<open>
  The context step shared by several handlers: \<^verbatim>\<open>getActivePageId()\<close>, and when the id
  it returns is truthy and resolves to a page, \<^verbatim>\<open>figma.currentPage\<close> is set to that page.
\<close>

definition use_active_page :: "plugin \<Rightarrow> plugin" where
  "use_active_page p =
     (let (apid, s1) = getActivePageId (host p) (session p);
          p1 = p\<lparr>session := s1\<rparr>
      in if apid \<noteq> [] then
           (case getNodeById (host p1) apid of
              Some pg \<Rightarrow>
                if node_kind pg = PAGE then p1\<lparr>host := (host p1)\<lparr>currentPage := apid\<rparr>\<rparr> else p1
            | None \<Rightarrow> p1)
         else p1)"

text \<open>
  \<^verbatim>\<open>'exportAsync' in node\<close>: every scene node and every page can be exported, the
  document root cannot.
\<close>

definition has_exportAsync :: "node \<Rightarrow> bool" where
  "has_exportAsync n = (node_kind n \<noteq> DOCUMENT)"

text \<open>
  The list \<^verbatim>\<open>nodesToExport\<close>: the nodes of the ids in \<^verbatim>\<open>payload.selection\<close> that
  resolve and can be exported; with no such ids, the exportable nodes of the current
  selection; with no selection, the current page (looked up in the document by its id).
\<close>

definition nodesToExport :: "figma \<Rightarrow> string list \<Rightarrow> node list" where
  "nodesToExport h sel =
     (if sel \<noteq> [] then
        filter has_exportAsync (List.map_filter (getNodeById h) sel)
      else if selection_of h (currentPage h) \<noteq> [] then
        filter has_exportAsync (List.map_filter (getNodeById h) (selection_of h (currentPage h)))
      else
        filter has_exportAsync (List.map_filter (getNodeById h) [currentPage h]))"

text \<open>
  The outcome of one \<^verbatim>\<open>exportAsync\<close> call followed by \<^verbatim>\<open>figma.base64Encode\<close> is either
  the message of the error (\<open>Inl\<close>) or the encoded bytes (\<open>Inr\<close>). \<^verbatim>\<open>Promise.all\<close>
  rejects as soon as one call does; the model reports the first failure in list order.
\<close>

fun first_error :: "(string + string) list \<Rightarrow> string option" where
  "first_error [] = None"
| "first_error (Inl e # rs) = Some e"
| "first_error (Inr d # rs) = first_error rs"

definition exported_files :: "string \<Rightarrow> node list \<Rightarrow> (string + string) list \<Rightarrow> export_file list" where
  "exported_files fmt nodes results =
     map (\<lambda>(n, r). \<lparr>file_name = node_name n,
                      file_data = (case r of Inr d \<Rightarrow> d | Inl e \<Rightarrow> []),
                      file_format = toLowerCase fmt, file_nodeId = node_id n\<rparr>)
         (zip nodes results)"

text \<open>
  \<^verbatim>\<open>handleExportDesign(message)\<close>; \<open>exportAsync\<close> is the host's export of a node in a format
  at a scale. The result is the message of the error thrown, if one is, with the plugin
  afterwards.
\<close>

definition handleExportDesign ::
  "(node \<Rightarrow> string \<Rightarrow> real \<Rightarrow> string + string) \<Rightarrow> PluginMessage \<Rightarrow> plugin \<Rightarrow> string option \<times> plugin" where
  "handleExportDesign exportAsync message p =
     (case msg_payload message of
        None \<Rightarrow> (Some ''No payload provided for EXPORT_DESIGN command'', p)
      | Some pl \<Rightarrow>
          (let sel = (case selection_ids pl of None \<Rightarrow> [] | Some ids \<Rightarrow> ids);
               st = (case settings pl of
                       None \<Rightarrow> \<lparr>format = Some ''PNG'', constraint_value = Num 1\<rparr>
                     | Some s \<Rightarrow> s);
               p1 = use_active_page p;
               nodes = nodesToExport (host p1) sel
           in if nodes = [] then
                (Some ''No valid nodes to export. Please select at least one node or specify node IDs.'',
                 p1)
              else
                (let fmt = (case format st of
                              None \<Rightarrow> ''PNG''
                            | Some f \<Rightarrow> if f = [] then ''PNG'' else f);
                     scale = or_default (constraint_value st) 1;
                     exportResults = map (\<lambda>n. exportAsync n fmt scale) nodes
                 in case first_error exportResults of
                      Some e \<Rightarrow> (Some (''Export failed: '' @ e), p1)
                    | None \<Rightarrow>
                        (let (apid, s2) = getActivePageId (host p1) (session p1)
                         in (None,
                             sendResponse
                               \<lparr>resp_type = msg_type message, success = True,
                                  resp_data = Some (Exported
                                    (exported_files fmt nodes exportResults) apid),
                                  resp_error = None, resp_id = Some (msg_id message),
                                  isResponse = False\<rparr>
                               (p1\<lparr>session := s2\<rparr>))))))"

section \<open>The other handlers\<close>

text \<open>
  The remaining handlers are modelled by the control flow that decides their responses:
  the explicit checks and throws, the \<^verbatim>\<open>try\<close>/\<^verbatim>\<open>catch\<close> blocks and every call of
  \<^verbatim>\<open>sendResponse\<close>. What they write to the scene graph is not modelled. Whether a block
  of host calls throws is the host's business: \<open>host_behaviour\<close> says, for each such
  block, whether it throws (\<open>Some\<close> of the error message) or completes (\<open>None\<close>).
  \<open>destructure_error\<close> is the message the engine gives the \<^verbatim>\<open>TypeError\<close> it throws when
  an undefined payload is destructured. A success response carries the data given, or
  none: the replies of \<^verbatim>\<open>handleModifyElement\<close> and \<^verbatim>\<open>handleArrangeLayout\<close> have no
  \<^verbatim>\<open>data\<close>.
\<close>

record host_behaviour =
  clock :: nat
  point_defaults :: "node_type \<Rightarrow> real"
  composite_branch ::
    "string \<Rightarrow> payload \<Rightarrow> figma \<Rightarrow> sessionState \<Rightarrow> HandleResponse \<times> figma \<times> sessionState"
  export_call :: "node \<Rightarrow> string \<Rightarrow> real \<Rightarrow> string + string"
  apply_styles :: "string option"
  apply_layout :: "string option"
  read_selection :: "string option"
  read_pages :: "string option"
  create_shape :: "string option"
  set_fills :: "string option"
  set_strokes :: "string option"
  set_effects :: "string option"
  attach_and_style :: "string option"
  destructure_error :: string

definition success_response :: "PluginMessage \<Rightarrow> response_data option \<Rightarrow> PluginResponse" where
  "success_response msg d =
     \<lparr>resp_type = msg_type msg, success = True, resp_data = d,
        resp_error = None, resp_id = Some (msg_id msg), isResponse = False\<rparr>"

definition failure_response :: "PluginMessage \<Rightarrow> string \<Rightarrow> PluginResponse" where
  "failure_response msg e =
     \<lparr>resp_type = msg_type msg, success = False, resp_data = None,
        resp_error = Some e, resp_id = Some (msg_id msg), isResponse = False\<rparr>"

text \<open>The current selection as nodes.\<close>

definition current_selection :: "figma \<Rightarrow> node list" where
  "current_selection h = List.map_filter (getNodeById h) (selection_of h (currentPage h))"

definition handleStyleElement :: "host_behaviour \<Rightarrow> PluginMessage \<Rightarrow> plugin \<Rightarrow> string option \<times> plugin" where
  "handleStyleElement env message p =
     (case msg_payload message of
        None \<Rightarrow> (Some ''No payload provided for STYLE_ELEMENT command'', p)
      | Some pl \<Rightarrow>
          (let eid = (case elementId pl of None \<Rightarrow> [] | Some i \<Rightarrow> i);
               p1 = use_active_page p;
               target =
                 (if eid = [] then
                    (case current_selection (host p1) of
                       n # ns \<Rightarrow> Inr n
                     | [] \<Rightarrow> Inl ''No element ID provided and no selection exists'')
                  else
                    (case getNodeById (host p1) eid of
                       Some n \<Rightarrow> Inr n
                     | None \<Rightarrow>
                         (case current_selection (host p1) of
                            n # ns \<Rightarrow> Inr n
                          | [] \<Rightarrow> Inl (''Element not found: '' @ eid @ '' and no selection exists''))))
           in case target of
                Inl e \<Rightarrow> (Some e, p1)
              | Inr targetElement \<Rightarrow>
                  (case apply_styles env of
                     Some e \<Rightarrow> (Some (''Failed to style element: '' @ e), p1)
                   | None \<Rightarrow>
                       (let (apid, s2) = getActivePageId (host p1) (session p1)
                        in (None, sendResponse (success_response message (Some OtherData)) (p1\<lparr>session := s2\<rparr>))))))"

text \<open>
  \<^verbatim>\<open>handleModifyElement\<close> and \<^verbatim>\<open>handleArrangeLayout\<close> destructure \<^verbatim>\<open>message.payload\<close>
  first, which throws a \<^verbatim>\<open>TypeError\<close> when there is no payload.
\<close>

definition handleModifyElement :: "host_behaviour \<Rightarrow> PluginMessage \<Rightarrow> plugin \<Rightarrow> string option \<times> plugin" where
  "handleModifyElement env message p =
     (case msg_payload message of
        None \<Rightarrow> (Some (destructure_error env), p)
      | Some pl \<Rightarrow>
          (case (case elementId pl of None \<Rightarrow> None | Some i \<Rightarrow> getNodeById (host p) i) of
             None \<Rightarrow>
               (Some (''Element not found: ''
                        @ (case elementId pl of None \<Rightarrow> ''undefined'' | Some i \<Rightarrow> i)), p)
           | Some element \<Rightarrow> (None, sendResponse (success_response message None) p)))"

definition handleArrangeLayout :: "host_behaviour \<Rightarrow> PluginMessage \<Rightarrow> plugin \<Rightarrow> string option \<times> plugin" where
  "handleArrangeLayout env message p =
     (case msg_payload message of
        None \<Rightarrow> (Some (destructure_error env), p)
      | Some pl \<Rightarrow>
          (let par = (case parentId pl of None \<Rightarrow> None | Some i \<Rightarrow> getNodeById (host p) i);
               frame_found = (case par of Some n \<Rightarrow> node_kind n = FRAME | None \<Rightarrow> False)
           in if \<not> frame_found then
                (Some (''Invalid parent node for layout: ''
                         @ (case parentId pl of None \<Rightarrow> ''undefined'' | Some i \<Rightarrow> i)), p)
              else
                (case apply_layout env of
                   Some e \<Rightarrow> (Some e, p)
                 | None \<Rightarrow> (None, sendResponse (success_response message None) p))))"

text \<open>
  \<^verbatim>\<open>handleGetSelection\<close> and \<^verbatim>\<open>handleGetCurrentPage\<close>: the whole body, the success
  response included, is inside \<^verbatim>\<open>try\<close>, and the \<^verbatim>\<open>catch\<close> sends the failure response.
\<close>

definition handleGetSelection :: "host_behaviour \<Rightarrow> PluginMessage \<Rightarrow> plugin \<Rightarrow> string option \<times> plugin" where
  "handleGetSelection env message p =
     (let p1 = use_active_page p
      in case read_selection env of
           Some e \<Rightarrow>
             (None, sendResponse (failure_response message (''Error getting selection: '' @ e)) p1)
         | None \<Rightarrow>
             (let (apid, s2) = getActivePageId (host p1) (session p1)
              in (None, sendResponse (success_response message (Some OtherData)) (p1\<lparr>session := s2\<rparr>))))"

definition handleGetCurrentPage :: "host_behaviour \<Rightarrow> PluginMessage \<Rightarrow> plugin \<Rightarrow> string option \<times> plugin" where
  "handleGetCurrentPage env message p =
     (let (apid, s1) = getActivePageId (host p) (session p);
          p1 = p\<lparr>session := s1\<rparr>
      in case read_pages env of
           Some e \<Rightarrow>
             (None, sendResponse (failure_response message (''Error getting page info: '' @ e)) p1)
         | None \<Rightarrow>
             (let (apid2, s2) = getActivePageId (host p1) (session p1)
              in (None, sendResponse (success_response message (Some OtherData)) (p1\<lparr>session := s2\<rparr>))))"

text \<open>
  \<^verbatim>\<open>handleCreateRectangle\<close> and \<^verbatim>\<open>handleCreateEllipse\<close>: inside the outer \<^verbatim>\<open>try\<close>, the
  assignments of fills, strokes and effects each have a \<^verbatim>\<open>try\<close>/\<^verbatim>\<open>catch\<close> of their own
  that sends a failure response and returns.
\<close>

definition handleCreateShape :: "host_behaviour \<Rightarrow> PluginMessage \<Rightarrow> plugin \<Rightarrow> string option \<times> plugin" where
  "handleCreateShape env msg p =
     (case create_shape env of
        Some e \<Rightarrow> (None, sendResponse (failure_response msg e) p)
      | None \<Rightarrow>
     (case set_fills env of
        Some e \<Rightarrow> (None, sendResponse (failure_response msg (''Failed to apply fills: '' @ e)) p)
      | None \<Rightarrow>
     (case set_strokes env of
        Some e \<Rightarrow> (None, sendResponse (failure_response msg (''Failed to apply strokes: '' @ e)) p)
      | None \<Rightarrow>
     (case set_effects env of
        Some e \<Rightarrow> (None, sendResponse (failure_response msg (''Failed to apply effects: '' @ e)) p)
      | None \<Rightarrow>
     (case attach_and_style env of
        Some e \<Rightarrow> (None, sendResponse (failure_response msg e) p)
      | None \<Rightarrow> (None, sendResponse (success_response msg (Some OtherData)) p))))))"

text \<open>
  \<^verbatim>\<open>handleCreateText\<close>, \<^verbatim>\<open>handleCreateFrame\<close>, \<^verbatim>\<open>handleCreateComponent\<close> and
  \<^verbatim>\<open>handleCreateLine\<close>: one \<^verbatim>\<open>try\<close> around the body and the success response, and a
  \<^verbatim>\<open>catch\<close> that sends the failure response.
\<close>

definition handleCreateNode :: "host_behaviour \<Rightarrow> PluginMessage \<Rightarrow> plugin \<Rightarrow> string option \<times> plugin" where
  "handleCreateNode env msg p =
     (case create_shape env of
        Some e \<Rightarrow> (None, sendResponse (failure_response msg e) p)
      | None \<Rightarrow> (None, sendResponse (success_response msg (Some OtherData)) p))"

section \<open>The dispatcher\<close>

text \<open>
  \<^verbatim>\<open>figma.ui.onmessage\<close>: the \<^verbatim>\<open>switch\<close> over \<^verbatim>\<open>msg.type\<close> inside \<^verbatim>\<open>try\<close>, and the
  \<^verbatim>\<open>catch\<close> that answers a thrown error with a failure response. The reply to
  \<^verbatim>\<open>UI_READY\<close> is built without an \<^verbatim>\<open>id\<close>.
\<close>

definition ui_ready_response :: "figma \<Rightarrow> PluginResponse" where
  "ui_ready_response h =
     (let pg = getNodeById h (currentPage h);
          root = (case pg of
                    Some n \<Rightarrow> (case node_parent n of
                                 Some r \<Rightarrow> if r = [] then ''unknown'' else r
                               | None \<Rightarrow> ''unknown'')
                  | None \<Rightarrow> ''unknown'');
          nm = (case pg of
                  Some n \<Rightarrow> if node_name n = [] then ''unknown'' else node_name n
                | None \<Rightarrow> ''unknown'')
      in \<lparr>resp_type = ''UI_READY'', success = True, resp_data = Some (UiReady root nm),
           resp_error = None, resp_id = None, isResponse = True\<rparr>)"

definition run_handler :: "host_behaviour \<Rightarrow> PluginMessage \<Rightarrow> plugin \<Rightarrow> string option \<times> plugin" where
  "run_handler env msg p =
     (let t = msg_type msg
      in if t = ''UI_READY'' then (None, sendResponse (ui_ready_response (host p)) p)
         else if t = ''CREATE_WIREFRAME'' then handleCreateWireframe (clock env) msg p
         else if t = ''ADD_ELEMENT'' then
           (let (addElementResult, p1) =
                  handleAddElement (clock env) (point_defaults env) (composite_branch env) msg p
            in (None,
                sendResponse
                  \<lparr>resp_type = msg_type msg, success = hr_success addElementResult,
                     resp_data = hr_data addElementResult,
                     resp_error = hr_error addElementResult,
                     resp_id = Some (msg_id msg), isResponse = True\<rparr> p1))
         else if t = ''STYLE_ELEMENT'' then handleStyleElement env msg p
         else if t = ''MODIFY_ELEMENT'' then handleModifyElement env msg p
         else if t = ''ARRANGE_LAYOUT'' then handleArrangeLayout env msg p
         else if t = ''EXPORT_DESIGN'' then handleExportDesign (export_call env) msg p
         else if t = ''GET_SELECTION'' then handleGetSelection env msg p
         else if t = ''GET_CURRENT_PAGE'' then handleGetCurrentPage env msg p
         else if t = ''CREATE_RECTANGLE'' then handleCreateShape env msg p
         else if t = ''CREATE_ELLIPSE'' then handleCreateShape env msg p
         else if t = ''CREATE_TEXT'' then handleCreateNode env msg p
         else if t = ''CREATE_FRAME'' then handleCreateNode env msg p
         else if t = ''CREATE_COMPONENT'' then handleCreateNode env msg p
         else if t = ''CREATE_LINE'' then handleCreateNode env msg p
         else (None,
               sendResponse (failure_response msg (''Unknown command type: '' @ msg_type msg)) p))"

definition onmessage :: "host_behaviour \<Rightarrow> PluginMessage \<Rightarrow> plugin \<Rightarrow> plugin" where
  "onmessage env msg p =
     (case run_handler env msg p of
        (None, p1) \<Rightarrow> p1
      | (Some e, p1) \<Rightarrow> sendResponse (failure_response msg e) p1)"

section \<open>Auxiliary notions\<close>

text \<open>
  The outcome of a handler answers the message when either it returned after posting
  exactly one response, which carries the type and the id of the message, or it threw
  without posting anything.
\<close>

definition answered :: "PluginMessage \<Rightarrow> plugin \<Rightarrow> string option \<times> plugin \<Rightarrow> bool" where
  "answered msg p res =
     (case res of
        (None, p1) \<Rightarrow>
          (\<exists>r. outbox p1 = outbox p @ [r] \<and> isResponse r
               \<and> resp_type r = msg_type msg \<and> resp_id r = Some (msg_id msg))
      | (Some e, p1) \<Rightarrow> outbox p1 = outbox p)"

text \<open>The frame that \<open>create_page_frames\<close> makes for the page of index \<open>k\<close>.\<close>

definition page_frame :: "figma \<Rightarrow> nat \<Rightarrow> real \<Rightarrow> real \<Rightarrow> string \<Rightarrow> string \<Rightarrow> node" where
  "page_frame h k width height style_name pageName =
     applyBaseStyle
       \<lparr>node_id = host_id (next_id h + k), node_kind = FRAME, node_name = pageName,
          node_parent = Some (currentPage h), node_x = real k * (width + 100), node_y = 0,
          node_width = width, node_height = height, node_fills = [],
          node_pointCount = 0\<rparr> style_name"

text \<open>What \<open>handleAddElement\<close> does for the types of \<open>shape_types\<close>.\<close>

definition shape_node :: "(node_type \<Rightarrow> real) \<Rightarrow> string \<Rightarrow> payload \<Rightarrow> figma \<Rightarrow> node" where
  "shape_node default_points nodeType pl h =
     (let props = (case element_properties pl of None \<Rightarrow> no_properties | Some pr \<Rightarrow> pr);
          pos = (case prop_position props of None \<Rightarrow> no_position | Some ps \<Rightarrow> ps);
          par = lookup_parent h (parent pl);
          pframe = parentFrame par;
          pid = (case pframe of Some f \<Rightarrow> node_id f | None \<Rightarrow> parentPage h par);
          xy = element_position h pframe pos (layoutPosition props)
      in if nodeType = ''RECTANGLE'' then fst (create_box RECTANGLE ''Rectangle'' props pos pid xy h)
         else if nodeType = ''ELLIPSE'' then fst (create_box ELLIPSE ''Ellipse'' props pos pid xy h)
         else if nodeType = ''POLYGON'' then
           fst (create_pointed POLYGON ''Polygon'' (default_points POLYGON) 12 props pos pid xy h)
         else if nodeType = ''STAR'' then
           fst (create_pointed STAR ''Star'' (default_points STAR) 20 props pos pid xy h)
         else if nodeType = ''FRAME'' then fst (create_frame props pos pid xy h)
         else if nodeType = ''LINE'' then fst (create_line props pos pid xy h)
         else fst (create_box VECTOR ''Vector'' props pos pid xy h))"





text \<open>
  The nodes, the format and the scale of the export calls that \<open>handleExportDesign\<close>
  makes for a payload.
\<close>

definition export_nodes :: "plugin \<Rightarrow> payload \<Rightarrow> node list" where
  "export_nodes p pl =
     nodesToExport (host (use_active_page p))
       (case selection_ids pl of None \<Rightarrow> [] | Some ids \<Rightarrow> ids)"

definition export_format :: "payload \<Rightarrow> string" where
  "export_format pl =
     (case settings pl of
        None \<Rightarrow> ''PNG''
      | Some st \<Rightarrow> (case format st of None \<Rightarrow> ''PNG'' | Some f \<Rightarrow> if f = [] then ''PNG'' else f))"

definition export_scale :: "payload \<Rightarrow> real" where
  "export_scale pl =
     (case settings pl of None \<Rightarrow> 1 | Some st \<Rightarrow> or_default (constraint_value st) 1)"

section \<open>Sample inputs\<close>

text \<open>A document with one page, a fresh plugin on it, and an empty payload.\<close>

definition sample_page :: node where
  "sample_page =
     \<lparr>node_id = ''0:1'', node_kind = PAGE, node_name = ''Page 1'', node_parent = None,
        node_x = 0, node_y = 0, node_width = 0, node_height = 0, node_fills = [],
        node_pointCount = 0\<rparr>"

definition sample_host :: figma where
  "sample_host =
     \<lparr>document = [sample_page], currentPage = ''0:1'', next_id = 0,
        viewport_width = 1000, viewport_height = 800, selection_of = (\<lambda>i. [])\<rparr>"

definition sample_plugin :: plugin where
  "sample_plugin =
     \<lparr>host = sample_host,
        session = \<lparr>createdPages = [], activeWireframeId = None, activePageId = None\<rparr>,
        outbox = []\<rparr>"

definition empty_payload :: payload where
  "empty_payload =
     \<lparr>description = None, pages = None, style = None, dimensions = None,
        renamePage = False, selection_ids = None, settings = None, elementType = None,
        parent = None, element_properties = None, elementId = None, parentId = None\<rparr>"

definition wireframe_message :: PluginMessage where
  "wireframe_message =
     \<lparr>msg_type = ''CREATE_WIREFRAME'',
        msg_payload = Some (empty_payload\<lparr>pages := Some [''Home'', ''About'']\<rparr>),
        msg_id = ''m1''\<rparr>"

text \<open>
  The unmodelled branches of \<open>handleAddElement\<close> are not reached by the samples; the
  host's default point counts are 3 for a polygon and 5 for a star.
\<close>

definition no_composites ::
  "string \<Rightarrow> payload \<Rightarrow> figma \<Rightarrow> sessionState \<Rightarrow> HandleResponse \<times> figma \<times> sessionState" where
  "no_composites nodeType pl h s = (createErrorResponse ''not modelled'', h, s)"

definition host_points :: "node_type \<Rightarrow> real" where
  "host_points k = (if k = STAR then 5 else 3)"

definition add_message :: "string \<Rightarrow> properties \<Rightarrow> PluginMessage" where
  "add_message nodeType props =
     \<lparr>msg_type = ''ADD_ELEMENT'',
        msg_payload = Some (empty_payload\<lparr>elementType := Some nodeType,
                                           element_properties := Some props\<rparr>),
        msg_id = ''m2''\<rparr>"





text \<open>A host on which every block of calls completes, and one whose export calls fail.\<close>

definition quiet_host :: host_behaviour where
  "quiet_host =
     \<lparr>clock = 0, point_defaults = host_points, composite_branch = no_composites,
        export_call = (\<lambda>n fmt scale. Inr ''data''),
        apply_styles = None, apply_layout = None, read_selection = None, read_pages = None,
        create_shape = None, set_fills = None, set_strokes = None, set_effects = None,
        attach_and_style = None,
        destructure_error = ''Cannot destructure property of undefined''\<rparr>"

definition failing_export_host :: host_behaviour where
  "failing_export_host = quiet_host\<lparr>export_call := (\<lambda>n fmt scale. Inl ''out of memory'')\<rparr>"

definition export_message :: PluginMessage where
  "export_message =
     \<lparr>msg_type = ''EXPORT_DESIGN'', msg_payload = Some empty_payload, msg_id = ''m3''\<rparr>"

section \<open>Properties of the session tracker\<close>

lemma getNodeById_Some_id: "getNodeById h i = Some n \<Longrightarrow> node_id n = i"
  by (auto simp: getNodeById_def find_Some_iff)

lemma switchToPage_activePageId_nonempty:
  assumes "[] \<notin> node_id ` set (document h)" and "activePageId s \<noteq> Some []"
  shows "activePageId (snd (snd (switchToPage pid h s))) \<noteq> Some []"
proof (cases "getNodeById h pid")
  case None
  then show ?thesis using assms(2) by (simp add: switchToPage_def)
next
  case (Some page)
  then have "node_id page = pid" and "page \<in> set (document h)"
    by (auto simp: getNodeById_def find_Some_iff)
  with assms(1) have "pid \<noteq> []" by force
  with Some assms(2) show ?thesis by (simp add: switchToPage_def)
qed

lemma getActivePageId_activePageId_nonempty:
  "activePageId s \<noteq> Some [] \<Longrightarrow> activePageId (snd (getActivePageId h s)) \<noteq> Some []"
  by (auto simp: getActivePageId_def split: option.splits)

lemma setActiveWireframe_activePageId_nonempty:
  "pid \<noteq> [] \<Longrightarrow> activePageId (setActiveWireframe now wid pid nm s) \<noteq> Some []"
  by (simp add: setActiveWireframe_def Let_def)

lemma addNodeToWireframe_activePageId:
  "activePageId (addNodeToWireframe now wid nid s) = activePageId s"
  by (simp add: addNodeToWireframe_def)

text \<open>
  Claim C3. \<open>getActivePageId\<close> returns the stored active page id when it is set and
  still resolves to a node of the host document, and leaves the session state as it is;
  otherwise it returns the id of the host's focused page and the stored active page id
  is \<^verbatim>\<open>null\<close> afterwards. The function is total: no branch raises. The stored id is
  an id issued by the host (see the three lemmas above), hence never the empty string.
\<close>

theorem getActivePageId_resolves_or_falls_back:
  assumes "activePageId s \<noteq> Some []"
  shows "getActivePageId h s =
          (if \<exists>pid. activePageId s = Some pid \<and> getNodeById h pid \<noteq> None
           then (the (activePageId s), s)
           else (currentPage h, s\<lparr>activePageId := None\<rparr>))"
proof (cases "activePageId s")
  case None
  then have "s\<lparr>activePageId := None\<rparr> = s" by (cases s) simp
  with None show ?thesis by (simp add: getActivePageId_def)
next
  case (Some pid)
  with assms have "pid \<noteq> []" by simp
  with Some show ?thesis
    by (cases "getNodeById h pid") (simp_all add: getActivePageId_def)
qed

theorem getActivePageId_resolves_or_falls_back_witness:
  "getActivePageId
     \<lparr>document = [\<lparr>node_id = ''0:1'', node_kind = PAGE, node_name = ''Page 1'',
                    node_parent = None, node_x = 0, node_y = 0, node_width = 0,
                    node_height = 0, node_fills = [], node_pointCount = 0\<rparr>],
      currentPage = ''0:1'', next_id = 0, viewport_width = 1000, viewport_height = 800,
      selection_of = (\<lambda>i. [])\<rparr>
     \<lparr>createdPages = [], activeWireframeId = None, activePageId = Some ''7:3''\<rparr>
   = (''0:1'', \<lparr>createdPages = [], activeWireframeId = None, activePageId = None\<rparr>)"
  using getActivePageId_resolves_or_falls_back
    [of "\<lparr>createdPages = [], activeWireframeId = None, activePageId = Some ''7:3''\<rparr>"
        "\<lparr>document = [\<lparr>node_id = ''0:1'', node_kind = PAGE, node_name = ''Page 1'',
                    node_parent = None, node_x = 0, node_y = 0, node_width = 0,
                    node_height = 0, node_fills = [], node_pointCount = 0\<rparr>],
          currentPage = ''0:1'', next_id = 0, viewport_width = 1000, viewport_height = 800,
          selection_of = (\<lambda>i. [])\<rparr>"]
  by (simp add: getNodeById_def)

section \<open>Properties of the colour parser\<close>

subsection \<open>Characters and digits\<close>

lemma hex_digit_code:
  assumes "is_digit_in 16 c"
  shows "(48 \<le> (of_char c :: nat) \<and> (of_char c :: nat) \<le> 57)
       \<or> (97 \<le> (of_char c :: nat) \<and> (of_char c :: nat) \<le> 102)
       \<or> (65 \<le> (of_char c :: nat) \<and> (of_char c :: nat) \<le> 70)"
  using assms
  by (auto simp: is_digit_in_def digit_value_def Let_def split: if_splits)

lemma hex_digit_value:
  assumes "is_digit_in 16 c"
  obtains d where "digit_value c = Some d" and "d < 16"
  using assms by (auto simp: is_digit_in_def split: option.splits)

lemma hex_digit_not_space: "is_digit_in 16 c \<Longrightarrow> \<not> is_space c"
  by (drule hex_digit_code) (auto simp: is_space_def Let_def)

lemma hex_digit_not_special:
  assumes "is_digit_in 16 c"
  shows "c \<noteq> CHR ''-''" "c \<noteq> CHR ''+''" "c \<noteq> CHR ''x''" "c \<noteq> CHR ''X''"
  using hex_digit_code [OF assms] by auto

lemma hex_char_digit:
  assumes "d < 16"
  shows "digit_value (hex_char d) = Some d"
  using assms by (simp add: hex_char_def digit_value_def Let_def)

lemma hex_char_is_digit: "d < 16 \<Longrightarrow> is_digit_in 16 (hex_char d)"
  by (simp add: is_digit_in_def hex_char_digit)

lemma parseInt_two_hex_digits:
  assumes "digit_value c1 = Some d1" "d1 < 16" "digit_value c2 = Some d2" "d2 < 16"
  shows "parseInt [c1, c2] (Some 16) = Num (real (16 * d1 + d2))"
proof -
  have h1: "is_digit_in 16 c1" and h2: "is_digit_in 16 c2"
    using assms by (simp_all add: is_digit_in_def)
  note n1 = hex_digit_not_space [OF h1] hex_digit_not_special [OF h1]
  note n2 = hex_digit_not_special [OF h2]
  show ?thesis
    using assms h1 h2 n1 n2
    by (simp add: parseInt_def Let_def digits_value_def)
qed

lemma hex_channel_two_digits:
  assumes "digit_value c1 = Some d1" "d1 < 16" "digit_value c2 = Some d2" "d2 < 16"
  shows "hex_channel [c1, c2] = Num (real (16 * d1 + d2) / 255)"
  by (simp add: hex_channel_def parseInt_two_hex_digits [OF assms])

lemma channel_byte_of_byte: "channel_byte (Num (real n / 255)) = n"
  by (simp add: channel_byte_def)

lemma hex2_digits: "d1 < 16 \<Longrightarrow> d2 < 16 \<Longrightarrow> hex2 (16 * d1 + d2) = [hex_char d1, hex_char d2]"
  by (simp add: hex2_def)

text \<open>One channel survives formatting and reparsing unchanged.\<close>

lemma hex_channel_reparse:
  assumes "is_digit_in 16 c1" "is_digit_in 16 c2"
  shows "hex_channel (hex2 (channel_byte (hex_channel [c1, c2]))) = hex_channel [c1, c2]"
    and "in_unit (hex_channel [c1, c2])"
proof -
  from assms obtain d1 d2 where d: "digit_value c1 = Some d1" "d1 < 16"
      "digit_value c2 = Some d2" "d2 < 16"
    by (auto elim!: hex_digit_value)
  have ch: "hex_channel [c1, c2] = Num (real (16 * d1 + d2) / 255)"
    by (rule hex_channel_two_digits [OF d])
  have "hex_channel [hex_char d1, hex_char d2] = Num (real (16 * d1 + d2) / 255)"
    using d by (intro hex_channel_two_digits) (simp_all add: hex_char_digit)
  then show "hex_channel (hex2 (channel_byte (hex_channel [c1, c2]))) = hex_channel [c1, c2]"
    using d by (simp only: ch channel_byte_of_byte hex2_digits)
  have "16 * d1 + d2 \<le> 255" using d by simp
  then have "real (16 * d1 + d2) \<le> 255" by (metis of_nat_le_iff of_nat_numeral)
  then show "in_unit (hex_channel [c1, c2])"
    by (simp add: ch in_unit_def)
qed

lemma hex_channel_ff: "hex_channel (hex2 (channel_byte (Num 1))) = Num 1"
proof -
  have "channel_byte (Num 1) = 255" by (simp add: channel_byte_def)
  then have "hex2 (channel_byte (Num 1)) = [hex_char 15, hex_char 15]"
    by (simp add: hex2_def)
  moreover have "hex_channel [hex_char 15, hex_char 15] = Num (real (16 * 15 + 15) / 255)"
    by (intro hex_channel_two_digits) (simp_all add: hex_char_digit)
  ultimately show ?thesis by simp
qed

subsection \<open>Strings that \<^verbatim>\<open>trim\<close> leaves alone\<close>

lemma trim_id:
  assumes "s \<noteq> []" "\<not> is_space (hd s)" "\<not> is_space (last s)"
  shows "trim s = s"
proof -
  from assms(1,2) have a: "dropWhile is_space s = s" by (cases s) simp_all
  from assms(1,3) have "dropWhile is_space (rev s) = rev s"
    by (cases "rev s") (simp_all add: last_rev [symmetric] hd_rev)
  with a show ?thesis by (simp add: trim_def)
qed

lemma hash_not_space: "\<not> is_space CHR ''#''"
  by (simp add: is_space_def)

lemma trim_hex_literal:
  assumes "list_all (is_digit_in 16) ds" "ds \<noteq> []"
  shows "trim (CHR ''#'' # ds) = CHR ''#'' # ds"
proof (rule trim_id)
  from assms have "is_digit_in 16 (last ds)" by (simp add: list_all_iff)
  then show "\<not> is_space (last (CHR ''#'' # ds))"
    using assms(2) by (simp add: hex_digit_not_space)
qed (simp_all add: hash_not_space)

lemma enhancedParseColor_hash:
  assumes "trim (CHR ''#'' # ds) = CHR ''#'' # ds" "parse_hex (CHR ''#'' # ds) = Some c"
  shows "enhancedParseColor (InString (CHR ''#'' # ds)) None = Color c"
  using assms
  by (simp add: enhancedParseColor.simps brand_lookup_def parse_formats_def startsWith_def)

subsection \<open>The hex branch on hex literals\<close>

lemma parse_hex_3:
  "parse_hex [CHR ''#'', x, y, z] =
     Some \<lparr>red = hex_channel [x, x], green = hex_channel [y, y],
           blue = hex_channel [z, z], alpha = Num 1\<rparr>"
  by (simp add: parse_hex_def substring_def)

lemma parse_hex_4:
  "parse_hex [CHR ''#'', x, y, z, w] =
     Some \<lparr>red = hex_channel [x, x], green = hex_channel [y, y],
           blue = hex_channel [z, z], alpha = hex_channel [w, w]\<rparr>"
  by (simp add: parse_hex_def substring_def)

lemma parse_hex_6:
  "parse_hex [CHR ''#'', x1, x2, y1, y2, z1, z2] =
     Some \<lparr>red = hex_channel [x1, x2], green = hex_channel [y1, y2],
           blue = hex_channel [z1, z2], alpha = Num 1\<rparr>"
  by (simp add: parse_hex_def substring_def)

lemma parse_hex_8:
  "parse_hex [CHR ''#'', x1, x2, y1, y2, z1, z2, w1, w2] =
     Some \<lparr>red = hex_channel [x1, x2], green = hex_channel [y1, y2],
           blue = hex_channel [z1, z2], alpha = hex_channel [w1, w2]\<rparr>"
  by (simp add: parse_hex_def substring_def)

lemma hex_literal_forms:
  assumes "hex_literal s"
  obtains x y z where "s = [CHR ''#'', x, y, z]"
      "is_digit_in 16 x" "is_digit_in 16 y" "is_digit_in 16 z"
  | x y z w where "s = [CHR ''#'', x, y, z, w]"
      "is_digit_in 16 x" "is_digit_in 16 y" "is_digit_in 16 z" "is_digit_in 16 w"
  | x1 x2 y1 y2 z1 z2 where "s = [CHR ''#'', x1, x2, y1, y2, z1, z2]"
      "is_digit_in 16 x1" "is_digit_in 16 x2" "is_digit_in 16 y1" "is_digit_in 16 y2"
      "is_digit_in 16 z1" "is_digit_in 16 z2"
  | x1 x2 y1 y2 z1 z2 w1 w2 where "s = [CHR ''#'', x1, x2, y1, y2, z1, z2, w1, w2]"
      "is_digit_in 16 x1" "is_digit_in 16 x2" "is_digit_in 16 y1" "is_digit_in 16 y2"
      "is_digit_in 16 z1" "is_digit_in 16 z2" "is_digit_in 16 w1" "is_digit_in 16 w2"
proof -
  from assms obtain ds where s: "s = CHR ''#'' # ds" and len: "length ds \<in> {3, 4, 6, 8}"
    and dig: "list_all (is_digit_in 16) ds"
    by (auto simp: hex_literal_def split: list.splits)
  from len consider "length ds = 3" | "length ds = 4" | "length ds = 6" | "length ds = 8"
    by auto
  then show thesis
  proof cases
    case 1
    then obtain x y z where "ds = [x, y, z]"
      by (auto simp: numeral_eq_Suc length_Suc_conv)
    with s dig that(1) show thesis by simp
  next
    case 2
    then obtain x y z w where "ds = [x, y, z, w]"
      by (auto simp: numeral_eq_Suc length_Suc_conv)
    with s dig that(2) show thesis by simp
  next
    case 3
    then obtain x1 x2 y1 y2 z1 z2 where "ds = [x1, x2, y1, y2, z1, z2]"
      by (auto simp: numeral_eq_Suc length_Suc_conv)
    with s dig that(3) show thesis by simp
  next
    case 4
    then obtain x1 x2 y1 y2 z1 z2 w1 w2 where "ds = [x1, x2, y1, y2, z1, z2, w1, w2]"
      by (auto simp: numeral_eq_Suc length_Suc_conv)
    with s dig that(4) show thesis by simp
  qed
qed

lemma enhancedParseColor_hex_literal:
  assumes "hex_literal s" "parse_hex s = Some c"
  shows "enhancedParseColor (InString s) None = Color c"
proof -
  from assms(1) obtain ds where s: "s = CHR ''#'' # ds"
    and len: "length ds \<in> {3, 4, 6, 8}" and dig: "list_all (is_digit_in 16) ds"
    by (auto simp: hex_literal_def split: list.splits)
  from len have "ds \<noteq> []" by auto
  with dig have "trim (CHR ''#'' # ds) = CHR ''#'' # ds" by (simp add: trim_hex_literal)
  with assms(2) show ?thesis unfolding s by (rule enhancedParseColor_hash [rotated])
qed

lemma hex2_length: "length (hex2 n) = 2"
  by (simp add: hex2_def)

lemma parse_hex_format:
  "parse_hex (format_hex8 c) =
     Some \<lparr>red = hex_channel (hex2 (channel_byte (red c))),
           green = hex_channel (hex2 (channel_byte (green c))),
           blue = hex_channel (hex2 (channel_byte (blue c))),
           alpha = hex_channel (hex2 (channel_byte (alpha c)))\<rparr>"
  by (simp add: parse_hex_def format_hex8_def substring_def hex2_length)

lemma enhancedParseColor_format:
  "enhancedParseColor (InString (format_hex8 c)) None =
     Color \<lparr>red = hex_channel (hex2 (channel_byte (red c))),
            green = hex_channel (hex2 (channel_byte (green c))),
            blue = hex_channel (hex2 (channel_byte (blue c))),
            alpha = hex_channel (hex2 (channel_byte (alpha c)))\<rparr>"
proof -
  define ds where "ds = hex2 (channel_byte (red c)) @ hex2 (channel_byte (green c))
       @ hex2 (channel_byte (blue c)) @ hex2 (channel_byte (alpha c))"
  have f: "format_hex8 c = CHR ''#'' # ds" by (simp add: format_hex8_def ds_def)
  have "\<not> is_space (hex_char (channel_byte (alpha c) mod 16))"
    by (rule hex_digit_not_space) (simp add: hex_char_is_digit)
  then have "trim (format_hex8 c) = format_hex8 c"
    by (intro trim_id) (simp_all add: format_hex8_def hash_not_space hex2_def)
  then have t: "trim (CHR ''#'' # ds) = CHR ''#'' # ds" by (simp only: f)
  show ?thesis
    unfolding f by (rule enhancedParseColor_hash [OF t]) (simp only: f [symmetric] parse_hex_format)
qed

text \<open>
  Claim C4. A hex literal of a supported form, parsed with no brand map, written back as
  \<^verbatim>\<open>#RRGGBBAA\<close> with each channel rounded to a byte, and parsed again, gives the colour
  of the first parse: every channel is equal to, hence within 1/255 of, its first value.
\<close>

theorem hex_literal_roundtrip:
  assumes "hex_literal s"
  shows "\<exists>c. enhancedParseColor (InString s) None = Color c
           \<and> enhancedParseColor (InString (format_hex8 c)) None = Color c"
  using assms
proof (cases rule: hex_literal_forms)
  case (1 x y z)
  let ?c = "\<lparr>red = hex_channel [x, x], green = hex_channel [y, y],
             blue = hex_channel [z, z], alpha = Num 1\<rparr>"
  have "enhancedParseColor (InString s) None = Color ?c"
    using assms by (rule enhancedParseColor_hex_literal) (simp add: 1 parse_hex_3)
  moreover have "enhancedParseColor (InString (format_hex8 ?c)) None = Color ?c"
    using 1 by (simp add: enhancedParseColor_format hex_channel_reparse hex_channel_ff)
  ultimately show ?thesis by blast
next
  case (2 x y z w)
  let ?c = "\<lparr>red = hex_channel [x, x], green = hex_channel [y, y],
             blue = hex_channel [z, z], alpha = hex_channel [w, w]\<rparr>"
  have "enhancedParseColor (InString s) None = Color ?c"
    using assms by (rule enhancedParseColor_hex_literal) (simp add: 2 parse_hex_4)
  moreover have "enhancedParseColor (InString (format_hex8 ?c)) None = Color ?c"
    using 2 by (simp add: enhancedParseColor_format hex_channel_reparse)
  ultimately show ?thesis by blast
next
  case (3 x1 x2 y1 y2 z1 z2)
  let ?c = "\<lparr>red = hex_channel [x1, x2], green = hex_channel [y1, y2],
             blue = hex_channel [z1, z2], alpha = Num 1\<rparr>"
  have "enhancedParseColor (InString s) None = Color ?c"
    using assms by (rule enhancedParseColor_hex_literal) (simp add: 3 parse_hex_6)
  moreover have "enhancedParseColor (InString (format_hex8 ?c)) None = Color ?c"
    using 3 by (simp add: enhancedParseColor_format hex_channel_reparse hex_channel_ff)
  ultimately show ?thesis by blast
next
  case (4 x1 x2 y1 y2 z1 z2 w1 w2)
  let ?c = "\<lparr>red = hex_channel [x1, x2], green = hex_channel [y1, y2],
             blue = hex_channel [z1, z2], alpha = hex_channel [w1, w2]\<rparr>"
  have "enhancedParseColor (InString s) None = Color ?c"
    using assms by (rule enhancedParseColor_hex_literal) (simp add: 4 parse_hex_8)
  moreover have "enhancedParseColor (InString (format_hex8 ?c)) None = Color ?c"
    using 4 by (simp add: enhancedParseColor_format hex_channel_reparse)
  ultimately show ?thesis by blast
qed

theorem hex_literal_roundtrip_witness:
  "hex_literal ''#abc'' \<and>
   (\<exists>c. enhancedParseColor (InString ''#abc'') None = Color c
       \<and> enhancedParseColor (InString (format_hex8 c)) None = Color c)"
proof -
  have h: "hex_literal ''#abc''"
    by (simp add: hex_literal_def is_digit_in_def digit_value_def)
  show ?thesis using h hex_literal_roundtrip [OF h] by simp
qed

subsection \<open>Fallback to opaque black\<close>


lemma trim_append:
  assumes "p \<noteq> []" "\<not> is_space (hd p)" "\<not> is_space (last p)"
  shows "trim (p @ x) = p @ rev (dropWhile is_space (rev x))"
proof -
  from assms(1,2) have a: "dropWhile is_space (p @ x) = p @ x" by (cases p) simp_all
  from assms(1,3) have b: "dropWhile is_space (rev p) = rev p"
    by (cases "rev p") (simp_all add: last_rev [symmetric] hd_rev)
  show ?thesis
  proof (cases "\<forall>c\<in>set (rev x). is_space c")
    case True
    then have "dropWhile is_space (rev x) = []" by simp
    moreover from True have "dropWhile is_space (rev x @ rev p) = dropWhile is_space (rev p)"
      by (simp add: dropWhile_append)
    ultimately show ?thesis by (simp add: trim_def a b)
  next
    case False
    then have "dropWhile is_space (rev x @ rev p) = dropWhile is_space (rev x) @ rev p"
      by (auto simp: dropWhile_append)
    then show ?thesis by (simp add: trim_def a)
  qed
qed

lemma trim_brand:
  "trim (''brand:'' @ x) = ''brand:'' @ rev (dropWhile is_space (rev x))"
  by (rule trim_append) (simp_all add: is_space_def)


text \<open>
  Claim C2, at a malformed hex string: \<^verbatim>\<open>#ggg\<close> is not a hex literal, a functional
  form or a named colour, yet the parser returns a record of \<^verbatim>\<open>NaN\<close> channels instead
  of opaque black, because \<^verbatim>\<open>parseInt\<close> does not throw and the \<^verbatim>\<open>catch\<close> of the hex
  branch is never reached.
\<close>

theorem enhancedParseColor_malformed_hex:
  "enhancedParseColor (InString ''#ggg'') None
     = Color \<lparr>red = NaN, green = NaN, blue = NaN, alpha = Num 1\<rparr>"
  by code_simp

lemma enhancedParseColor_inherited_name:
  "enhancedParseColor (InString ''constructor'') None = PrototypeMember ''constructor''"
  by code_simp

subsection \<open>Brand-colour references\<close>







subsection \<open>Range of the channels\<close>

lemma enhancedParseColor_no_map:
  "s \<noteq> [] \<Longrightarrow> enhancedParseColor (InString s) None = parse_formats (trim s)"
  by (simp add: enhancedParseColor.simps brand_lookup_def)

lemma in_unit_one: "in_unit (Num 1)"
  by (simp add: in_unit_def)

lemma parse_formats_hex_literal:
  assumes "hex_literal t"
  shows "\<exists>c. parse_formats t = Color c \<and> normalized c"
proof -
  have st: "startsWith t ''#''"
    using assms by (auto simp: hex_literal_def startsWith_def split: list.splits)
  from assms show ?thesis
  proof (cases rule: hex_literal_forms)
    case (1 x y z)
    then show ?thesis using st
      by (simp add: parse_formats_def parse_hex_3 normalized_def hex_channel_reparse in_unit_one)
  next
    case (2 x y z w)
    then show ?thesis using st
      by (simp add: parse_formats_def parse_hex_4 normalized_def hex_channel_reparse)
  next
    case (3 x1 x2 y1 y2 z1 z2)
    then show ?thesis using st
      by (simp add: parse_formats_def parse_hex_6 normalized_def hex_channel_reparse in_unit_one)
  next
    case (4 x1 x2 y1 y2 z1 z2 w1 w2)
    then show ?thesis using st
      by (simp add: parse_formats_def parse_hex_8 normalized_def hex_channel_reparse)
  qed
qed

lemma startsWith_toLowerCase:
  assumes "startsWith t p" "toLowerCase p = p"
  shows "startsWith (toLowerCase t) p"
proof -
  have "take (length p) (toLowerCase t) = toLowerCase (take (length p) t)"
    by (simp add: toLowerCase_def take_map)
  with assms show ?thesis by (simp add: startsWith_def)
qed

lemma colorMap_entry:
  assumes "map_of colorMap k = Some c"
  shows "normalized c \<and> \<not> startsWith k ''#'' \<and> \<not> startsWith k ''rgb'' \<and> \<not> startsWith k ''hsl''"
proof -
  from assms have "(k, c) \<in> set colorMap" by (rule map_of_SomeD)
  then show ?thesis
    unfolding colorMap_def
    by (auto simp: normalized_def in_unit_def rgb_def startsWith_def)
qed

lemma parse_formats_named:
  assumes "named_color t"
  shows "\<exists>c. parse_formats t = Color c \<and> normalized c"
proof -
  from assms obtain c where c: "map_of colorMap (toLowerCase t) = Some c"
    by (auto simp: named_color_def)
  note e = colorMap_entry [OF c]
  have "\<not> startsWith t ''#''" "\<not> startsWith t ''rgb''" "\<not> startsWith t ''hsl''"
    using e startsWith_toLowerCase [of t]
    by (auto simp: toLowerCase_def lower_char_def)
  then have "parse_formats t = Color c"
    using c by (simp add: parse_formats_def parse_named_def)
  with e show ?thesis by simp
qed

lemma byte_range_in_unit: "byte_range x \<Longrightarrow> in_unit (divide_by x 255)"
  by (cases x) (simp_all add: byte_range_def in_unit_def)

lemma parse_formats_rgb:
  assumes "rgb_in_range t"
  shows "\<exists>c. parse_formats t = Color c \<and> normalized c"
proof -
  from assms have st: "startsWith t ''rgb''" and len: "length (match_numbers t) \<ge> 3"
    by (simp_all add: rgb_in_range_def Let_def)
  from st have nh: "\<not> startsWith t ''#''"
    by (cases t) (auto simp: startsWith_def)
  have "\<exists>c. parse_rgb t = Some c \<and> normalized c"
    using assms
    by (auto simp: rgb_in_range_def parse_rgb_def Let_def normalized_def byte_range_in_unit
        in_unit_one)
  with st nh show ?thesis by (auto simp: parse_formats_def)
qed

lemma mix_unit:
  fixes p q u :: real
  assumes "0 \<le> p" "p \<le> 1" "0 \<le> q" "q \<le> 1" "0 \<le> u" "u \<le> 1"
  shows "0 \<le> p + (q - p) * u \<and> p + (q - p) * u \<le> 1"
proof -
  have e: "p + (q - p) * u = p * (1 - u) + q * u" by (simp add: algebra_simps)
  have "0 \<le> p * (1 - u)" "0 \<le> q * u" using assms by simp_all
  then have lo: "0 \<le> p * (1 - u) + q * u" by simp
  have "p * (1 - u) \<le> 1 - u" using assms by (simp add: mult_left_le_one_le)
  moreover have "q * u \<le> u" using assms by (simp add: mult_left_le_one_le)
  ultimately have "p * (1 - u) + q * u \<le> (1 - u) + u" by (rule add_mono)
  with lo show ?thesis by (simp add: e)
qed

lemma in_unit_Num: "in_unit (Num y) = (0 \<le> y \<and> y \<le> 1)"
  by (simp add: in_unit_def)

lemma hue2rgb_unit:
  assumes "0 \<le> p" "p \<le> 1" "0 \<le> q" "q \<le> 1" "- (1 / 3) \<le> t"
  shows "in_unit (hue2rgb (Num p) (Num q) (Num t))"
proof -
  define t1 where "t1 = (if t < 0 then t + 1 else t)"
  define t2 where "t2 = (if 1 < t1 then t1 - 1 else t1)"
  have t2: "0 \<le> t2" using assms(5) by (auto simp: t1_def t2_def)
  have h0: "hue2rgb (Num p) (Num q) (Num t) =
      (if t2 < 1 / 6 then Num (p + (q - p) * 6 * t2)
       else if t2 < 1 / 2 then Num q
       else if t2 < 2 / 3 then Num (p + (q - p) * (2 / 3 - t2) * 6)
       else Num p)"
    by (simp add: hue2rgb_def Let_def t1_def t2_def)
  have h: "hue2rgb (Num p) (Num q) (Num t) =
      (if t2 < 1 / 6 then Num (p + (q - p) * (6 * t2))
       else if t2 < 1 / 2 then Num q
       else if t2 < 2 / 3 then Num (p + (q - p) * ((2 / 3 - t2) * 6))
       else Num p)"
    unfolding h0 by (simp only: mult.assoc)
  consider "t2 < 1 / 6" | "\<not> t2 < 1 / 6" "t2 < 1 / 2"
    | "\<not> t2 < 1 / 6" "\<not> t2 < 1 / 2" "t2 < 2 / 3"
    | "\<not> t2 < 1 / 6" "\<not> t2 < 1 / 2" "\<not> t2 < 2 / 3" by blast
  then show ?thesis
  proof cases
    case 1
    then have u: "0 \<le> 6 * t2" "6 * t2 \<le> 1" using t2 by simp_all
    have "in_unit (Num (p + (q - p) * (6 * t2)))"
      unfolding in_unit_Num by (rule mix_unit [OF assms(1-4) u])
    with 1 show ?thesis by (simp only: h if_True)
  next
    case 2
    then show ?thesis using assms by (simp add: h in_unit_Num)
  next
    case 3
    then have u: "0 \<le> (2 / 3 - t2) * 6" "(2 / 3 - t2) * 6 \<le> 1" by simp_all
    have "in_unit (Num (p + (q - p) * ((2 / 3 - t2) * 6)))"
      unfolding in_unit_Num by (rule mix_unit [OF assms(1-4) u])
    with 3 show ?thesis by (simp only: h if_True if_False)
  next
    case 4
    then show ?thesis using assms by (simp add: h in_unit_Num)
  qed
qed

lemma hue2rgb_nan: "hue2rgb (Num p) (Num q) NaN = Num p"
  by (simp add: hue2rgb_def Let_def)

lemma pq_unit:
  fixes s l :: real
  assumes "0 \<le> s" "s \<le> 1" "0 \<le> l" "l \<le> 1"
  defines "q \<equiv> (if l < 0.5 then l * (1 + s) else l + s - l * s)"
  shows "0 \<le> q \<and> q \<le> 1 \<and> 0 \<le> 2 * l - q \<and> 2 * l - q \<le> 1"
proof -
  have a: "0 \<le> l * s" using assms(1,3) by simp
  have b: "l * s \<le> l" using assms(1-3) by (simp add: mult_left_le)
  have d: "l * s \<le> s" using assms(1,3,4) by (intro mult_left_le_one_le)
  have "0 \<le> (1 - l) * (1 - s)" using assms(2,4) by simp
  then have c: "l + s \<le> 1 + l * s" by (simp add: algebra_simps)
  show ?thesis
  proof (cases "l < 0.5")
    case True
    then have "q = l + l * s" by (simp add: q_def algebra_simps)
    with a b True assms(3,4) show ?thesis by (intro conjI) linarith+
  next
    case False
    then have "q = l + s - l * s" by (simp add: q_def)
    with a b c d False assms(1-4) show ?thesis by (intro conjI) linarith+
  qed
qed

subsection \<open>The \<^verbatim>\<open>hsl\<close> branch on components in range\<close>

lemma numchar_plain:
  assumes "is_numchar c"
  shows "\<not> is_space c" and "c \<noteq> CHR ''-''"
  using assms
  by (auto simp: is_numchar_def is_digit_in_def digit_value_def is_space_def Let_def
      split: if_splits option.splits)

lemma runs_numchars:
  "list_all is_numchar cur \<Longrightarrow> \<forall>t\<in>set (runs cur s). list_all is_numchar t \<and> t \<noteq> []"
proof (induction s arbitrary: cur)
  case Nil
  then show ?case by simp
next
  case (Cons a s)
  have e: "\<forall>t\<in>set (runs [] s). list_all is_numchar t \<and> t \<noteq> []"
    by (rule Cons.IH) simp
  show ?case
  proof (cases "is_numchar a")
    case True
    with Cons.prems have "list_all is_numchar (cur @ [a])" by simp
    then have "\<forall>t\<in>set (runs (cur @ [a]) s). list_all is_numchar t \<and> t \<noteq> []"
      by (rule Cons.IH)
    with True show ?thesis by simp
  next
    case False
    with e Cons.prems show ?thesis by simp
  qed
qed

lemma parseInt_run:
  assumes "list_all is_numchar t" and "t \<noteq> []"
  shows "parseInt t None = NaN \<or> (\<exists>x\<ge>0. parseInt t None = Num x)"
proof -
  from assms obtain c cs where t: "t = c # cs" and c: "is_numchar c"
    by (cases t) auto
  note numchar_plain [OF c]
  then show ?thesis
    by (simp add: parseInt_def Let_def t)
qed

lemma hue_of_run:
  assumes "3 \<le> length (match_numbers t)"
  shows "divide_by (parseInt (match_numbers t ! 0) None) 360 = NaN
       \<or> (\<exists>x\<ge>0. divide_by (parseInt (match_numbers t ! 0) None) 360 = Num x)"
proof -
  from assms have "0 < length (match_numbers t)" by arith
  then have "match_numbers t ! 0 \<in> set (match_numbers t)" by (rule nth_mem)
  then have "match_numbers t ! 0 \<in> set (runs [] t)" by (simp only: match_numbers_def)
  with runs_numchars [of "[]" t]
  have "list_all is_numchar (match_numbers t ! 0)" and "match_numbers t ! 0 \<noteq> []"
    by simp_all
  then have "parseInt (match_numbers t ! 0) None = NaN
      \<or> (\<exists>x\<ge>0. parseInt (match_numbers t ! 0) None = Num x)"
    by (rule parseInt_run)
  then consider "parseInt (match_numbers t ! 0) None = NaN"
    | x where "0 \<le> x" "parseInt (match_numbers t ! 0) None = Num x" by blast
  then show ?thesis
  proof cases
    case 1
    then show ?thesis by simp
  next
    case 2
    then have "divide_by (parseInt (match_numbers t ! 0) None) 360 = Num (x / 360)"
      and "0 \<le> x / 360" by simp_all
    then show ?thesis by blast
  qed
qed

lemma percent_value:
  assumes "percent_range v"
  obtains x where "divide_by v 100 = Num x" and "0 \<le> x" and "x \<le> 1"
proof (cases v)
  case (Num y)
  with assms have "0 \<le> y" "y \<le> 100" by (simp_all add: percent_range_def)
  then show ?thesis using Num by (intro that [of "y / 100"]) simp_all
qed (use assms in \<open>simp_all add: percent_range_def\<close>)

lemma hue2rgb_in_unit:
  assumes "0 \<le> p" "p \<le> 1" "0 \<le> q" "q \<le> 1"
    and "h = NaN \<or> (\<exists>x\<ge>0. h = Num x)"
  shows "in_unit (hue2rgb (Num p) (Num q) (h + Num (1 / 3)))"
    and "in_unit (hue2rgb (Num p) (Num q) h)"
    and "in_unit (hue2rgb (Num p) (Num q) (h - Num (1 / 3)))"
proof -
  from assms(5) consider "h = NaN" | x where "0 \<le> x" "h = Num x" by blast
  then have "in_unit (hue2rgb (Num p) (Num q) (h + Num (1 / 3)))
      \<and> in_unit (hue2rgb (Num p) (Num q) h)
      \<and> in_unit (hue2rgb (Num p) (Num q) (h - Num (1 / 3)))"
  proof cases
    case 1
    with assms(1,2) show ?thesis by (simp add: hue2rgb_nan in_unit_Num)
  next
    case 2
    then show ?thesis
      by (simp add: hue2rgb_unit [OF assms(1-4)])
  qed
  then show "in_unit (hue2rgb (Num p) (Num q) (h + Num (1 / 3)))"
    and "in_unit (hue2rgb (Num p) (Num q) h)"
    and "in_unit (hue2rgb (Num p) (Num q) (h - Num (1 / 3)))" by simp_all
qed

lemma parse_hsl_in_range:
  assumes "hsl_in_range t"
  shows "\<exists>c. parse_hsl t = Some c \<and> normalized c"
proof -
  define vals where "vals = match_numbers t"
  from assms have len: "3 \<le> length vals"
    and sr: "percent_range (parseInt (vals ! 1) None)"
    and lr: "percent_range (parseInt (vals ! 2) None)"
    and ar: "length vals < 4 \<or> in_unit (parseFloat (vals ! 3))"
    by (simp_all add: hsl_in_range_def Let_def vals_def)
  define h where "h = divide_by (parseInt (vals ! 0) None) 360"
  define al where "al = (if length vals \<ge> 4 then parseFloat (vals ! 3) else Num 1)"
  from sr obtain S where S: "divide_by (parseInt (vals ! 1) None) 100 = Num S"
    "0 \<le> S" "S \<le> 1" by (rule percent_value)
  from lr obtain L where L: "divide_by (parseInt (vals ! 2) None) 100 = Num L"
    "0 \<le> L" "L \<le> 1" by (rule percent_value)
  have hh: "h = NaN \<or> (\<exists>x\<ge>0. h = Num x)"
    using hue_of_run [of t] len by (simp add: h_def vals_def)
  have al: "in_unit al" using ar by (auto simp: al_def in_unit_Num)
  define Q where "Q = (if L < 0.5 then L * (1 + S) else L + S - L * S)"
  have pq: "0 \<le> Q \<and> Q \<le> 1 \<and> 0 \<le> 2 * L - Q \<and> 2 * L - Q \<le> 1"
    unfolding Q_def by (rule pq_unit [OF S(2,3) L(2,3)])
  have q: "(if Num L < Num 0.5 then Num L * (Num 1 + Num S)
            else Num L + Num S - Num L * Num S) = Num Q"
    by (simp add: Q_def)
  have p: "Num 2 * Num L - Num Q = Num (2 * L - Q)" by simp
  note ch = hue2rgb_in_unit [of "2 * L - Q" Q h, OF _ _ _ _ hh]
  have run: "parse_hsl t =
      Some (if Num S = Num 0 then \<lparr>red = Num L, green = Num L, blue = Num L, alpha = al\<rparr>
            else \<lparr>red = hue2rgb (Num (2 * L - Q)) (Num Q) (h + Num (1 / 3)),
                   green = hue2rgb (Num (2 * L - Q)) (Num Q) h,
                   blue = hue2rgb (Num (2 * L - Q)) (Num Q) (h - Num (1 / 3)),
                   alpha = al\<rparr>)"
    unfolding parse_hsl_def Let_def vals_def [symmetric] S(1) L(1) h_def [symmetric]
      al_def [symmetric] q p
    using len by simp
  show ?thesis
    unfolding run using al L(2,3) pq ch
    by (simp add: normalized_def in_unit_Num)
qed

lemma parse_formats_hsl:
  assumes "hsl_in_range t"
  shows "\<exists>c. parse_formats t = Color c \<and> normalized c"
proof -
  from assms have st: "startsWith t ''hsl''"
    by (simp add: hsl_in_range_def Let_def)
  then have "\<not> startsWith t ''#''" "\<not> startsWith t ''rgb''"
    by (cases t; auto simp: startsWith_def)+
  with st parse_hsl_in_range [OF assms] show ?thesis
    by (auto simp: parse_formats_def)
qed

lemma parse_formats_unrecognized:
  assumes "unrecognized t"
  shows "\<exists>c. parse_formats t = Color c \<and> normalized c"
proof -
  from assms have h: "startsWith t ''#'' \<Longrightarrow> parse_hex t = None"
    by (simp add: unrecognized_def parse_hex_def Let_def)
  from assms have r: "startsWith t ''rgb'' \<Longrightarrow> parse_rgb t = None"
    and l: "startsWith t ''hsl'' \<Longrightarrow> parse_hsl t = None"
    by (simp_all add: unrecognized_def parse_rgb_def parse_hsl_def Let_def)
  from assms have "parse_named t = Color black"
    by (simp add: unrecognized_def parse_named_def)
  with h r l have "parse_formats t = Color black"
    by (simp add: parse_formats_def)
  then show ?thesis
    by (simp add: normalized_def in_unit_def black_def rgb_def)
qed

lemma in_range_plain:
  assumes "in_range colorInput"
  shows "\<exists>c. enhancedParseColor colorInput None = Color c \<and> normalized c"
proof (cases colorInput)
  case InUndefined
  then show ?thesis
    by (simp add: enhancedParseColor.simps normalized_def in_unit_def black_def rgb_def)
next
  case (InObject c)
  with assms show ?thesis
    by (auto simp: enhancedParseColor.simps normalized_def in_unit_def)
next
  case (InString s)
  show ?thesis
  proof (cases "s = []")
    case True
    with InString show ?thesis
      by (simp add: enhancedParseColor.simps normalized_def in_unit_def black_def rgb_def)
  next
    case False
    with assms InString
    consider "hex_literal (trim s)" | "named_color (trim s)" | "rgb_in_range (trim s)"
      | "hsl_in_range (trim s)" | "unrecognized (trim s)"
      by auto
    then have "\<exists>c. parse_formats (trim s) = Color c \<and> normalized c"
      by cases
        (rule parse_formats_hex_literal parse_formats_named parse_formats_rgb
           parse_formats_hsl parse_formats_unrecognized, assumption)+
    with False InString show ?thesis by (simp add: enhancedParseColor_no_map)
  qed
qed

lemma enhancedParseColor_resolved:
  "enhancedParseColor colorInput brandColors
     = enhancedParseColor (resolved_input colorInput brandColors) None"
proof (cases colorInput)
  case (InString s)
  show ?thesis
  proof (cases "s = []")
    case True
    with InString show ?thesis by (simp add: resolved_input_def enhancedParseColor.simps)
  next
    case False
    show ?thesis
    proof (cases "brand_lookup (trim s) brandColors")
      case None
      with False InString show ?thesis
        by (simp add: resolved_input_def enhancedParseColor_no_map)
           (simp add: enhancedParseColor.simps)
    next
      case (Some v)
      with False InString show ?thesis
        by (simp add: resolved_input_def) (simp add: enhancedParseColor.simps)
    qed
  qed
qed (simp_all add: resolved_input_def enhancedParseColor.simps)

text \<open>
  Claim C6, as the code has it. The channels of the result lie in \<open>[0,1]\<close> when the input
  that is parsed in the end (the mapped value for a brand reference that resolves, the
  input itself otherwise) is in range: a hex literal of a supported form, a named colour,
  an \<^verbatim>\<open>rgb\<close>/\<^verbatim>\<open>rgba\<close> form with components from 0 to 255 and alpha from 0 to 1, an
  \<^verbatim>\<open>hsl\<close>/\<^verbatim>\<open>hsla\<close> form with saturation and lightness from 0 to 100 and alpha from 0
  to 1, a string that no branch recognizes (it gives opaque black), an object whose
  channels are in \<open>[0,1]\<close>, or no input at all. Nothing is clamped: an object is passed
  through as it is, and the components of a functional form are only divided and
  combined.
\<close>

theorem in_range_normalized:
  assumes "in_range (resolved_input colorInput brandColors)"
  shows "\<exists>c. enhancedParseColor colorInput brandColors = Color c \<and> normalized c"
  using in_range_plain [OF assms] by (simp add: enhancedParseColor_resolved [symmetric])

theorem in_range_normalized_witness:
  "in_range (resolved_input (InString ''brand:leaf'') (Some [''leaf'' \<mapsto> ''hsl(120, 100%, 50%)'']))
   \<and> (\<exists>c. enhancedParseColor (InString ''brand:leaf'')
               (Some [''leaf'' \<mapsto> ''hsl(120, 100%, 50%)'']) = Color c
          \<and> normalized c)"
proof -
  have h: "in_range (resolved_input (InString ''brand:leaf'')
      (Some [''leaf'' \<mapsto> ''hsl(120, 100%, 50%)'']))" by code_simp
  show ?thesis using h in_range_normalized [OF h] by simp
qed

theorem rgb_component_not_clamped:
  "enhancedParseColor (InString ''rgb(300,0,0)'') None = Color (rgb (20 / 17) 0 0 1)
   \<and> \<not> normalized (rgb (20 / 17) 0 0 1)"
  by code_simp

section \<open>Properties of CREATE_WIREFRAME\<close>

lemma applyBaseStyle_fields:
  "node_id (applyBaseStyle f st) = node_id f"
  "node_kind (applyBaseStyle f st) = node_kind f"
  "node_name (applyBaseStyle f st) = node_name f"
  "node_x (applyBaseStyle f st) = node_x f"
  "node_width (applyBaseStyle f st) = node_width f"
  by (simp_all add: applyBaseStyle_def Let_def)

lemma page_frame_fields:
  "node_id (page_frame h k w ht st nm) = host_id (next_id h + k)"
  "node_kind (page_frame h k w ht st nm) = FRAME"
  "node_name (page_frame h k w ht st nm) = nm"
  "node_x (page_frame h k w ht st nm) = real k * (w + 100)"
  "node_width (page_frame h k w ht st nm) = w"
  by (simp_all add: page_frame_def applyBaseStyle_fields)

lemma create_page_frames_two:
  "create_page_frames w ht st [a, b] [] h =
     ([page_frame h 0 w ht st a, page_frame h (Suc 0) w ht st b],
      h\<lparr>next_id := Suc (Suc (next_id h)),
        document := document h @ [page_frame h 0 w ht st a, page_frame h (Suc 0) w ht st b]\<rparr>)"
  by (simp add: create_node_def store_def page_frame_def Let_def)

lemma rename_node_fields:
  "next_id (rename_node i nm h) = next_id h"
  "currentPage (rename_node i nm h) = currentPage h"
  "length (document (rename_node i nm h)) = length (document h)"
  by (simp_all add: rename_node_def)

text \<open>
  Claim C8, as the code has it. \<^verbatim>\<open>CREATE_WIREFRAME\<close> with pages \<^verbatim>\<open>["Home","About"]\<close>
  returns normally and adds two frames to the document, the second starting 100 to the
  right of the right edge of the first: its x is the first frame's x plus the first
  frame's width plus 100, so the horizontal bounds do not overlap. It registers one
  wireframe, under the id of the first frame (new, hence not yet a key of the directory),
  whose \<^verbatim>\<open>pageIds\<close> list holds one id, that of the host's current page; that wireframe
  becomes the active wireframe. The two frame ids are the \<^verbatim>\<open>pageIds\<close> of the response.
\<close>

theorem create_wireframe_two_pages:
  assumes "msg_payload message = Some pl" and "pages pl = Some [''Home'', ''About'']"
    and "map_of (createdPages (session p)) (host_id (next_id (host p))) = None"
  shows "\<exists>f1 f2 p'.
           handleCreateWireframe now message p = (None, p')
         \<and> length (document (host p')) = length (document (host p)) + 2
         \<and> drop (length (document (host p))) (document (host p')) = [f1, f2]
         \<and> node_kind f1 = FRAME \<and> node_kind f2 = FRAME
         \<and> node_name f1 = ''Home'' \<and> node_name f2 = ''About''
         \<and> node_x f1 + node_width f1 \<le> node_x f2
         \<and> node_x f2 = node_x f1 + node_width f1 + 100
         \<and> map fst (createdPages (session p')) = map fst (createdPages (session p)) @ [node_id f1]
         \<and> map_of (createdPages (session p')) (node_id f1)
              = Some \<lparr>name = (case description pl of None \<Rightarrow> ''Untitled Wireframe'' | Some d \<Rightarrow> d),
                       wireframeId = node_id f1, pageIds = [currentPage (host p)],
                       createdAt = now\<rparr>
         \<and> activeWireframeId (session p') = Some (node_id f1)
         \<and> (\<exists>r. outbox p' = outbox p @ [r] \<and> success r \<and> resp_id r = Some (msg_id message)
                \<and> resp_data r = Some (WireframeCreated (node_id f1) [node_id f1, node_id f2]
                                        (currentPage (host p)) (node_id f1)))"
proof -
  define h0 where "h0 = (if renamePage pl
      then rename_node (currentPage (host p))
             (''Wireframe: ''
                @ take 20 (case description pl of None \<Rightarrow> ''Untitled Wireframe'' | Some d \<Rightarrow> d)
                @ (if length (case description pl of None \<Rightarrow> ''Untitled Wireframe'' | Some d \<Rightarrow> d) > 20
                   then ''...'' else '''')) (host p)
      else host p)"
  have h0: "next_id h0 = next_id (host p)" "currentPage h0 = currentPage (host p)"
      "length (document h0) = length (document (host p))"
    by (simp_all add: h0_def rename_node_fields)
  define w where "w = or_default (dim_width (case dimensions pl of
      None \<Rightarrow> \<lparr>dim_width = Num 1440, dim_height = Num 900\<rparr> | Some d \<Rightarrow> d)) 1440"
  define ht where "ht = or_default (dim_height (case dimensions pl of
      None \<Rightarrow> \<lparr>dim_width = Num 1440, dim_height = Num 900\<rparr> | Some d \<Rightarrow> d)) 900"
  define st where "st = (case style pl of None \<Rightarrow> ''minimal'' | Some s \<Rightarrow> s)"
  define f1 where "f1 = page_frame h0 0 w ht st ''Home''"
  define f2 where "f2 = page_frame h0 (Suc 0) w ht st ''About''"
  have id1: "node_id f1 = host_id (next_id (host p))"
    by (simp add: f1_def page_frame_fields h0)
  have fresh: "map_of (createdPages (session p)) (node_id f1) = None"
    using assms(3) by (simp add: id1)
  have run: "handleCreateWireframe now message p =
      (None, sendResponse
         \<lparr>resp_type = msg_type message, success = True,
            resp_data = Some (WireframeCreated (node_id f1) [node_id f1, node_id f2]
                               (currentPage (host p)) (node_id f1)),
            resp_error = None, resp_id = Some (msg_id message), isResponse = False\<rparr>
         (p\<lparr>host := h0\<lparr>next_id := Suc (Suc (next_id h0)),
                          document := document h0 @ [f1, f2]\<rparr>,
            session := setActiveWireframe now (node_id f1) (currentPage (host p))
              (case description pl of None \<Rightarrow> ''Untitled Wireframe'' | Some d \<Rightarrow> d)
              (session p)\<rparr>))"
    unfolding handleCreateWireframe_def
    by (simp add: assms(1,2) Let_def create_page_frames_two
        h0_def [symmetric] w_def [symmetric] ht_def [symmetric] st_def [symmetric]
        f1_def [symmetric] f2_def [symmetric] del: create_page_frames.simps)
  have x: "node_x f1 + node_width f1 \<le> node_x f2"
      "node_x f2 = node_x f1 + node_width f1 + 100"
    by (simp_all add: f1_def f2_def page_frame_fields)
  show ?thesis
    apply (rule exI [of _ f1], rule exI [of _ f2])
    apply (simp add: run sendResponse_def h0 x)
    apply (simp add: f1_def f2_def page_frame_fields)
    apply (simp add: setActiveWireframe_def Let_def fresh [unfolded f1_def] page_frame_fields
        h0 assms(3) map_add_def)
    done
qed

theorem create_wireframe_two_pages_witness:
  "\<exists>p'. handleCreateWireframe 5 wireframe_message sample_plugin = (None, p')
        \<and> length (document (host p')) = 3
        \<and> length (map fst (createdPages (session p'))) = 1
        \<and> length (outbox p') = 1"
  using create_wireframe_two_pages
    [of wireframe_message "empty_payload\<lparr>pages := Some [''Home'', ''About'']\<rparr>"
        sample_plugin 5]
  by (auto simp: wireframe_message_def empty_payload_def sample_plugin_def sample_host_def
      host_id_def)

theorem create_wireframe_registers_one_page_id:
  "map (\<lambda>(k, w). pageIds w)
     (createdPages (session (snd (handleCreateWireframe 5 wireframe_message sample_plugin))))
   = [[''0:1'']]"
  by (simp add: handleCreateWireframe_def wireframe_message_def empty_payload_def
      sample_plugin_def sample_host_def Let_def create_node_def store_def or_default_def
      setActiveWireframe_def sendResponse_def)

section \<open>Properties of ADD_ELEMENT\<close>

lemma applyExtendedStyles_keeps:
  "node_id (applyExtendedStyles x y w ht n) = node_id n"
  "node_kind (applyExtendedStyles x y w ht n) = node_kind n"
  "node_pointCount (applyExtendedStyles x y w ht n) = node_pointCount n"
  by (simp_all add: applyExtendedStyles_def Let_def split: jsnum.splits)


lemma set_pointCount_keeps:
  "node_id (set_pointCount most pc n) = node_id n"
  "node_kind (set_pointCount most pc n) = node_kind n"
  by (simp_all add: set_pointCount_def split: jsval.splits jsnum.splits)

lemma set_pointCount_value:
  "node_pointCount (set_pointCount most pc n) =
     (case pc of
        JNumber (Num v) \<Rightarrow> if v = 0 then node_pointCount n else max 3 (min most v)
      | _ \<Rightarrow> node_pointCount n)"
  by (simp add: set_pointCount_def split: jsval.splits jsnum.splits)

lemma create_pointed_node:
  "node_kind (fst (create_pointed kind nm dflt most props pos pid xy h)) = kind"
  "node_pointCount (fst (create_pointed kind nm dflt most props pos pid xy h)) =
     (case pointCount props of
        JNumber (Num v) \<Rightarrow> if v = 0 then dflt else max 3 (min most v)
      | _ \<Rightarrow> dflt)"
  by (simp_all add: create_pointed_def create_node_def Let_def applyExtendedStyles_keeps
      set_pointCount_keeps set_pointCount_value split: jsval.splits jsnum.splits)

lemma create_pointed_stored:
  "snd (create_pointed kind nm dflt most props pos pid xy h) =
     store (fst (create_pointed kind nm dflt most props pos pid xy h))
       (h\<lparr>next_id := Suc (next_id h)\<rparr>)"
  by (simp add: create_pointed_def create_node_def Let_def)

lemma create_box_stored:
  "snd (create_box kind nm props pos pid xy h) =
     store (fst (create_box kind nm props pos pid xy h)) (h\<lparr>next_id := Suc (next_id h)\<rparr>)"
  by (simp add: create_box_def create_node_def Let_def)



lemma create_frame_stored:
  "snd (create_frame props pos pid xy h) =
     store (fst (create_frame props pos pid xy h)) (h\<lparr>next_id := Suc (next_id h)\<rparr>)"
  by (simp add: create_frame_def create_node_def Let_def)


lemma create_line_stored:
  "snd (create_line props pos pid xy h) =
     store (fst (create_line props pos pid xy h)) (h\<lparr>next_id := Suc (next_id h)\<rparr>)"
  by (simp add: create_line_def create_node_def Let_def)


lemma handleAddElement_shape:
  assumes "msg_payload msg = Some pl" and "elementType pl = Some nodeType"
    and "nodeType = ''RECTANGLE'' \<or> nodeType = ''ELLIPSE'' \<or> nodeType = ''POLYGON''
         \<or> nodeType = ''STAR'' \<or> nodeType = ''FRAME'' \<or> nodeType = ''LINE''
         \<or> nodeType = ''VECTOR''"
  shows "handleAddElement now default_points other msg p =
     (createSuccessResponse (ElementAdded (shape_node default_points nodeType pl (host p))),
      p\<lparr>host := store (shape_node default_points nodeType pl (host p))
                  ((host p)\<lparr>next_id := Suc (next_id (host p))\<rparr>),
        session := (case activeWireframeId (session p) of
                      None \<Rightarrow> session p
                    | Some wid \<Rightarrow>
                        addNodeToWireframe now wid
                          (node_id (shape_node default_points nodeType pl (host p)))
                          (session p))\<rparr>)"
proof -
  have ne: "nodeType \<noteq> []" using assms(3) by auto
  have fin: "\<And>c. (case c of (createdNode, h1) \<Rightarrow>
        (createSuccessResponse (ElementAdded createdNode),
         p\<lparr>host := h1,
           session := (case activeWireframeId (session p) of
                         None \<Rightarrow> session p
                       | Some wid \<Rightarrow>
                           addNodeToWireframe now wid (node_id createdNode) (session p))\<rparr>))
      = (createSuccessResponse (ElementAdded (fst c)),
         p\<lparr>host := snd c,
           session := (case activeWireframeId (session p) of
                         None \<Rightarrow> session p
                       | Some wid \<Rightarrow>
                           addNodeToWireframe now wid (node_id (fst c)) (session p))\<rparr>)"
    by (simp add: split_beta)
  from assms(3) show ?thesis
  proof (elim disjE)
    assume 1: "nodeType = ''RECTANGLE''"
    show ?thesis unfolding handleAddElement_def shape_node_def Let_def fin
      by (simp add: assms(1,2) 1 create_box_stored)
  next
    assume 2: "nodeType = ''ELLIPSE''"
    show ?thesis unfolding handleAddElement_def shape_node_def Let_def fin
      by (simp add: assms(1,2) 2 create_box_stored)
  next
    assume 3: "nodeType = ''POLYGON''"
    show ?thesis unfolding handleAddElement_def shape_node_def Let_def fin
      by (simp add: assms(1,2) 3 create_pointed_stored)
  next
    assume 4: "nodeType = ''STAR''"
    show ?thesis unfolding handleAddElement_def shape_node_def Let_def fin
      by (simp add: assms(1,2) 4 create_pointed_stored)
  next
    assume 5: "nodeType = ''FRAME''"
    show ?thesis unfolding handleAddElement_def shape_node_def Let_def fin
      by (simp add: assms(1,2) 5 create_frame_stored)
  next
    assume 6: "nodeType = ''LINE''"
    show ?thesis unfolding handleAddElement_def shape_node_def Let_def fin
      by (simp add: assms(1,2) 6 create_line_stored)
  next
    assume 7: "nodeType = ''VECTOR''"
    show ?thesis unfolding handleAddElement_def shape_node_def Let_def fin
      by (simp add: assms(1,2) 7 create_box_stored)
  qed
qed

lemma shape_node_pointed:
  assumes "element_properties pl = Some props"
    and "(nodeType, kind, most) \<in> {(''POLYGON'', POLYGON, 12), (''STAR'', STAR, 20)}"
  shows "node_kind (shape_node default_points nodeType pl h) = kind"
    and "node_pointCount (shape_node default_points nodeType pl h) =
           (case pointCount props of
              JNumber (Num v) \<Rightarrow> if v = 0 then default_points kind else max 3 (min most v)
            | _ \<Rightarrow> default_points kind)"
  using assms(2)
  by (auto simp: shape_node_def Let_def assms(1) create_pointed_node)

lemma last_store: "last (document (store n h)) = n"
  by (simp add: store_def)

text \<open>
  Claim C10, as the code has it. For an \<^verbatim>\<open>ADD_ELEMENT\<close> command of type \<^verbatim>\<open>POLYGON\<close>
  (bound 12) or \<^verbatim>\<open>STAR\<close> (bound 20), the point count of the created node is
  \<open>max 3 (min bound v)\<close> when \<^verbatim>\<open>properties.pointCount\<close> is a number \<open>v\<close> other than zero and
  \<^verbatim>\<open>NaN\<close>; when it is zero, \<^verbatim>\<open>NaN\<close>, missing or not a number, the truthiness guard
  skips the assignment and the count is the host's default.
\<close>

theorem add_element_point_count:
  assumes "msg_payload msg = Some pl" and "elementType pl = Some nodeType"
    and "element_properties pl = Some props"
    and "(nodeType, kind, most) \<in> {(''POLYGON'', POLYGON, 12), (''STAR'', STAR, 20)}"
  shows "\<exists>n p'. handleAddElement now default_points other msg p
                   = (createSuccessResponse (ElementAdded n), p')
           \<and> last (document (host p')) = n
           \<and> node_kind n = kind
           \<and> node_pointCount n =
               (case pointCount props of
                  JNumber (Num v) \<Rightarrow> if v = 0 then default_points kind else max 3 (min most v)
                | _ \<Rightarrow> default_points kind)"
proof -
  from assms(4)
  have "nodeType = ''RECTANGLE'' \<or> nodeType = ''ELLIPSE'' \<or> nodeType = ''POLYGON''
         \<or> nodeType = ''STAR'' \<or> nodeType = ''FRAME'' \<or> nodeType = ''LINE''
         \<or> nodeType = ''VECTOR''"
    by auto
  note run = handleAddElement_shape [OF assms(1,2) this]
  show ?thesis
    by (simp add: run last_store shape_node_pointed [OF assms(3,4)])
qed

theorem add_element_point_count_witness:
  "\<exists>n p'. handleAddElement 0 host_points no_composites
             (add_message ''POLYGON'' (no_properties\<lparr>pointCount := JNumber (Num 50)\<rparr>))
             sample_plugin
           = (createSuccessResponse (ElementAdded n), p')
         \<and> node_kind n = POLYGON \<and> node_pointCount n = 12"
  using add_element_point_count
    [of "add_message ''POLYGON'' (no_properties\<lparr>pointCount := JNumber (Num 50)\<rparr>)"
        "empty_payload\<lparr>elementType := Some ''POLYGON'',
           element_properties := Some (no_properties\<lparr>pointCount := JNumber (Num 50)\<rparr>)\<rparr>"
        "''POLYGON''" "no_properties\<lparr>pointCount := JNumber (Num 50)\<rparr>" POLYGON 12
        0 host_points no_composites sample_plugin]
  by (auto simp: add_message_def empty_payload_def no_properties_def)

theorem star_point_count_zero_keeps_default:
  "map node_pointCount
     (document (host (snd (handleAddElement 0 host_points no_composites
        (add_message ''STAR'' (no_properties\<lparr>pointCount := JNumber (Num 0)\<rparr>))
        sample_plugin))))
   = [0, 5]
   \<and> max 3 (min 20 (0::real)) = 3"
  by (simp add: handleAddElement_def add_message_def empty_payload_def no_properties_def
      no_position_def sample_plugin_def sample_host_def sample_page_def host_points_def
      Let_def create_pointed_def create_node_def store_def lookup_parent_def parentFrame_def
      parentPage_def element_position_def set_pointCount_def applyExtendedStyles_def
      or_default_def createSuccessResponse_def)









section \<open>Properties of the dispatcher\<close>

lemma use_active_page_outbox: "outbox (use_active_page p) = outbox p"
  by (simp add: use_active_page_def Let_def split_beta split: option.splits)

lemma answered_success:
  "answered msg p (None, sendResponse (success_response msg d) (q\<lparr>session := s\<rparr>))
     = (outbox q = outbox p)"
  "answered msg p (None, sendResponse (success_response msg d) q) = (outbox q = outbox p)"
  by (auto simp: answered_def sendResponse_def success_response_def)

lemma answered_failure:
  "answered msg p (None, sendResponse (failure_response msg e) q) = (outbox q = outbox p)"
  by (auto simp: answered_def sendResponse_def failure_response_def)

lemma answered_thrown: "answered msg p (Some e, q) = (outbox q = outbox p)"
  by (simp add: answered_def)

lemma handleCreateWireframe_answered:
  "answered msg p (handleCreateWireframe now msg p)"
  by (auto simp: handleCreateWireframe_def answered_def Let_def split_beta sendResponse_def
      split: option.splits)

lemma handleExportDesign_answered:
  "answered msg p (handleExportDesign exportAsync msg p)"
  by (auto simp: handleExportDesign_def answered_def Let_def split_beta sendResponse_def
      use_active_page_outbox split: option.splits)

lemma handleStyleElement_answered:
  "answered msg p (handleStyleElement env msg p)"
  by (auto simp: handleStyleElement_def Let_def split_beta answered_success answered_thrown
      use_active_page_outbox split: option.splits sum.splits list.splits)

lemma handleModifyElement_answered:
  "answered msg p (handleModifyElement env msg p)"
  by (auto simp: handleModifyElement_def answered_success answered_thrown split: option.splits)

lemma handleArrangeLayout_answered:
  "answered msg p (handleArrangeLayout env msg p)"
  by (auto simp: handleArrangeLayout_def Let_def answered_success answered_thrown
      split: option.splits)

lemma handleGetSelection_answered:
  "answered msg p (handleGetSelection env msg p)"
  by (auto simp: handleGetSelection_def Let_def split_beta answered_success answered_failure
      use_active_page_outbox split: option.splits)

lemma handleGetCurrentPage_answered:
  "answered msg p (handleGetCurrentPage env msg p)"
  by (auto simp: handleGetCurrentPage_def Let_def split_beta answered_success answered_failure
      split: option.splits)

lemma handleCreateShape_answered:
  "answered msg p (handleCreateShape env msg p)"
  by (auto simp: handleCreateShape_def answered_success answered_failure split: option.splits)

lemma handleCreateNode_answered:
  "answered msg p (handleCreateNode env msg p)"
  by (auto simp: handleCreateNode_def answered_success answered_failure split: option.splits)

lemma handleAddElement_outbox:
  "outbox (snd (handleAddElement now dp other msg p)) = outbox p"
  by (auto simp: handleAddElement_def Let_def split_beta split: option.splits)

lemma run_handler_answered:
  assumes "msg_type msg \<noteq> ''UI_READY''"
  shows "answered msg p (run_handler env msg p)"
proof -
  have add: "answered msg p
      (let (addElementResult, p1) =
             handleAddElement (clock env) (point_defaults env) (composite_branch env) msg p
       in (None,
           sendResponse
             \<lparr>resp_type = t, success = hr_success addElementResult,
                resp_data = hr_data addElementResult, resp_error = hr_error addElementResult,
                resp_id = Some (msg_id msg), isResponse = True\<rparr> p1))"
    if "msg_type msg = t" for t
    using that
      handleAddElement_outbox [of "clock env" "point_defaults env" "composite_branch env" msg p]
    by (simp add: split_beta answered_def sendResponse_def)
  show ?thesis
    unfolding run_handler_def Let_def
    using assms add [of "''ADD_ELEMENT''"]
    by (simp add: handleCreateWireframe_answered handleExportDesign_answered
        handleStyleElement_answered handleModifyElement_answered handleArrangeLayout_answered
        handleGetSelection_answered handleGetCurrentPage_answered handleCreateShape_answered
        handleCreateNode_answered answered_failure)
qed

text \<open>
  Claim C1, as the code has it. Every inbound message, of a known or an unknown type,
  with a handler that returns or one that throws, is answered by exactly one response,
  marked as a response. The response carries the type and the id of the message, except
  that the reply to \<^verbatim>\<open>UI_READY\<close> is built without an id.
\<close>

theorem onmessage_one_response:
  "\<exists>r. outbox (onmessage env msg p) = outbox p @ [r]
       \<and> isResponse r
       \<and> resp_type r = msg_type msg
       \<and> resp_id r = (if msg_type msg = ''UI_READY'' then None else Some (msg_id msg))"
proof (cases "msg_type msg = ''UI_READY''")
  case True
  then show ?thesis
    by (simp add: onmessage_def run_handler_def sendResponse_def ui_ready_response_def Let_def)
next
  case False
  note a = run_handler_answered [OF False, of p env]
  show ?thesis
  proof (cases "run_handler env msg p")
    case (Pair thrown p1)
    show ?thesis
    proof (cases thrown)
      case None
      with a Pair False show ?thesis by (auto simp: onmessage_def answered_def)
    next
      case (Some e)
      with a Pair False show ?thesis
        by (auto simp: onmessage_def answered_def sendResponse_def failure_response_def)
    qed
  qed
qed

theorem ui_ready_reply_has_no_id:
  "map resp_id
     (outbox (onmessage quiet_host
        \<lparr>msg_type = ''UI_READY'', msg_payload = None, msg_id = ''m0''\<rparr> sample_plugin))
   = [None]"
  by (simp add: onmessage_def run_handler_def sendResponse_def ui_ready_response_def Let_def
      sample_plugin_def)

section \<open>Properties of EXPORT_DESIGN\<close>

lemma first_error_None: "first_error rs = None \<longleftrightarrow> (\<forall>r\<in>set rs. \<exists>d. r = Inr d)"
proof (induction rs)
  case Nil
  then show ?case by simp
next
  case (Cons r rs)
  then show ?case by (cases r) auto
qed

lemma handleExportDesign_unfolded:
  assumes "msg_payload msg = Some pl"
  shows "handleExportDesign exportAsync msg p =
     (if export_nodes p pl = [] then
        (Some ''No valid nodes to export. Please select at least one node or specify node IDs.'',
         use_active_page p)
      else
        (case first_error (map (\<lambda>n. exportAsync n (export_format pl) (export_scale pl))
                (export_nodes p pl)) of
           Some e \<Rightarrow> (Some (''Export failed: '' @ e), use_active_page p)
         | None \<Rightarrow>
             (None,
              sendResponse
                \<lparr>resp_type = msg_type msg, success = True,
                   resp_data = Some (Exported
                     (exported_files (export_format pl) (export_nodes p pl)
                        (map (\<lambda>n. exportAsync n (export_format pl) (export_scale pl))
                           (export_nodes p pl)))
                     (fst (getActivePageId (host (use_active_page p))
                             (session (use_active_page p))))),
                   resp_error = None, resp_id = Some (msg_id msg), isResponse = False\<rparr>
                ((use_active_page p)
                   \<lparr>session := snd (getActivePageId (host (use_active_page p))
                                       (session (use_active_page p)))\<rparr>))))"
  by (simp add: handleExportDesign_def assms Let_def split_beta export_nodes_def
      export_format_def export_scale_def or_default_def split: option.splits)

text \<open>
  Claim C9. When the nodes to export, resolved from the payload, the selection or the
  current page, are none, or when the export call of any one of them fails, the
  \<^verbatim>\<open>EXPORT_DESIGN\<close> command is answered by a single response: a failure with an error
  message, the id of the message, and no data, so no partial export results.
\<close>

theorem export_design_fails_as_a_whole:
  assumes "msg_type msg = ''EXPORT_DESIGN''" and "msg_payload msg = Some pl"
    and "export_nodes p pl = []
         \<or> (\<exists>n\<in>set (export_nodes p pl). \<exists>e.
               export_call env n (export_format pl) (export_scale pl) = Inl e)"
  shows "\<exists>r. outbox (onmessage env msg p) = outbox p @ [r]
           \<and> \<not> success r \<and> resp_data r = None \<and> resp_error r \<noteq> None
           \<and> resp_id r = Some (msg_id msg)"
proof -
  have run: "run_handler env msg p = handleExportDesign (export_call env) msg p"
    by (simp add: run_handler_def assms(1))
  have "\<exists>e. handleExportDesign (export_call env) msg p = (Some e, use_active_page p)"
  proof (cases "export_nodes p pl = []")
    case True
    then show ?thesis by (simp add: handleExportDesign_unfolded [OF assms(2)])
  next
    case False
    with assms(3) obtain n e where "n \<in> set (export_nodes p pl)"
      and "export_call env n (export_format pl) (export_scale pl) = Inl e" by blast
    then have "\<not> (\<forall>r\<in>set (map (\<lambda>n. export_call env n (export_format pl) (export_scale pl))
        (export_nodes p pl)). \<exists>d. r = Inr d)"
      by force
    then have "first_error (map (\<lambda>n. export_call env n (export_format pl) (export_scale pl))
        (export_nodes p pl)) \<noteq> None"
      by (simp only: first_error_None not_False_eq_True)
    with False show ?thesis
      by (auto simp: handleExportDesign_unfolded [OF assms(2)])
  qed
  then show ?thesis
    by (auto simp: onmessage_def run sendResponse_def failure_response_def
        use_active_page_outbox)
qed

theorem export_design_fails_as_a_whole_witness:
  "\<exists>r. outbox (onmessage failing_export_host export_message sample_plugin) = [r]
       \<and> \<not> success r \<and> resp_data r = None \<and> resp_id r = Some ''m3''"
proof -
  have nodes: "export_nodes sample_plugin empty_payload = [sample_page]"
    by (simp add: empty_payload_def sample_plugin_def sample_host_def sample_page_def
        export_nodes_def use_active_page_def getActivePageId_def nodesToExport_def
        getNodeById_def has_exportAsync_def)
  have fails: "export_call failing_export_host sample_page (export_format empty_payload)
      (export_scale empty_payload) = Inl ''out of memory''"
    by (simp add: failing_export_host_def)
  show ?thesis
    using export_design_fails_as_a_whole
      [of export_message empty_payload sample_plugin failing_export_host]
    by (simp add: nodes fails) (auto simp: export_message_def sample_plugin_def)
qed

end
